theory Spec2Isabelle
  imports
    Main
    "HOL-Library.Char_ord"
    "HOL-Library.List_Lexorder"
    "HOL-Library.Product_Lexorder"
begin

section \<open>Python values used by ua\_gui\_manager.py\<close>

text \<open>
  Strings are \<^typ>\<open>string\<close>, lists of 8-bit characters, each read as the code point
  of the same number (U+0000 to U+00FF); text with code points beyond that range is
  outside the embedding. On this range Python's comparison of strings, \<^verbatim>\<open>str.lower\<close>
  and \<^verbatim>\<open>str.strip\<close> act as written below. Exceptions are values of \<open>py_error\<close>;
  a function that can raise returns a sum whose \<open>Inl\<close> side is the exception.
\<close>

datatype py_error =
    PermissionError
  | FileNotFoundError
  | NotADirectoryError
  | IsADirectoryError
  | IndexError
  | TclError
  | ReadError

text \<open>
  \<^verbatim>\<open>str.lower()\<close> on U+0000 to U+00FF: the capital letters A to Z and the capital
  letters U+00C0 to U+00DE (without the multiplication sign U+00D7) move up by 32,
  everything else is kept.
\<close>

definition upper_letters :: string where
  "upper_letters =
     ''ABCDEFGHIJKLMNOPQRSTUVWXYZ'' @
     [CHR 0xC0, CHR 0xC1, CHR 0xC2, CHR 0xC3, CHR 0xC4, CHR 0xC5, CHR 0xC6, CHR 0xC7,
      CHR 0xC8, CHR 0xC9, CHR 0xCA, CHR 0xCB, CHR 0xCC, CHR 0xCD, CHR 0xCE, CHR 0xCF,
      CHR 0xD0, CHR 0xD1, CHR 0xD2, CHR 0xD3, CHR 0xD4, CHR 0xD5, CHR 0xD6,
      CHR 0xD8, CHR 0xD9, CHR 0xDA, CHR 0xDB, CHR 0xDC, CHR 0xDD, CHR 0xDE]"

definition lower_letters :: string where
  "lower_letters =
     ''abcdefghijklmnopqrstuvwxyz'' @
     [CHR 0xE0, CHR 0xE1, CHR 0xE2, CHR 0xE3, CHR 0xE4, CHR 0xE5, CHR 0xE6, CHR 0xE7,
      CHR 0xE8, CHR 0xE9, CHR 0xEA, CHR 0xEB, CHR 0xEC, CHR 0xED, CHR 0xEE, CHR 0xEF,
      CHR 0xF0, CHR 0xF1, CHR 0xF2, CHR 0xF3, CHR 0xF4, CHR 0xF5, CHR 0xF6,
      CHR 0xF8, CHR 0xF9, CHR 0xFA, CHR 0xFB, CHR 0xFC, CHR 0xFD, CHR 0xFE]"

definition lower_char :: "char \<Rightarrow> char" where
  "lower_char c =
     (case map_of (zip upper_letters lower_letters) c of
        Some d \<Rightarrow> d
      | None \<Rightarrow> c)"

definition lower :: "string \<Rightarrow> string" where
  "lower s = map lower_char s"

text \<open>
  \<^verbatim>\<open>str.isspace()\<close> on U+0000 to U+00FF, the characters \<^verbatim>\<open>strip()\<close> removes: tab,
  line feed, vertical tab, form feed, carriage return, the four separators 0x1C..0x1F,
  the blank, next line (U+0085) and the no-break space (U+00A0).
\<close>

definition is_space :: "char \<Rightarrow> bool" where
  "is_space c =
     (c \<in> set [CHR 0x09, CHR 0x0A, CHR 0x0B, CHR 0x0C, CHR 0x0D,
                CHR 0x1C, CHR 0x1D, CHR 0x1E, CHR 0x1F, CHR 0x20, CHR 0x85, CHR 0xA0])"

text \<open>\<^verbatim>\<open>s.strip()\<close>: white space removed at both ends.\<close>

definition strip :: "string \<Rightarrow> string" where
  "strip s = rev (dropWhile is_space (rev (dropWhile is_space s)))"

text \<open>\<^verbatim>\<open>s.startswith(p)\<close>, \<^verbatim>\<open>s.endswith(p)\<close> and \<^verbatim>\<open>needle in hay\<close>.\<close>

fun startswith :: "string \<Rightarrow> string \<Rightarrow> bool" where
  "startswith s [] = True"
| "startswith [] (p # ps) = False"
| "startswith (c # cs) (p # ps) = (c = p \<and> startswith cs ps)"

definition endswith :: "string \<Rightarrow> string \<Rightarrow> bool" where
  "endswith s p = startswith (rev s) (rev p)"

fun contains :: "string \<Rightarrow> string \<Rightarrow> bool" where
  "contains needle [] = (needle = [])"
| "contains needle (c # cs) = (startswith (c # cs) needle \<or> contains needle cs)"

text \<open>\<^verbatim>\<open>content.split(sep)\<close> for a one-character separator: always at least one piece.\<close>

fun split_on :: "char \<Rightarrow> string \<Rightarrow> string list" where
  "split_on sep [] = [[]]"
| "split_on sep (c # cs) =
     (if c = sep then [] # split_on sep cs
      else (case split_on sep cs of
              [] \<Rightarrow> [[c]]
            | l # ls \<Rightarrow> (c # l) # ls))"

section \<open>The argument bag and command building\<close>

text \<open>
  The dictionary \<^verbatim>\<open>args\<close> mixes strings and booleans. A Python dict iterates in
  insertion order, so it is an association list with distinct keys;
  \<open>dict_set\<close> is \<^verbatim>\<open>d[key] = value\<close>.
\<close>

datatype arg_value = StrV string | BoolV bool

type_synonym arg_bag = "(string \<times> arg_value) list"

fun dict_set :: "arg_bag \<Rightarrow> string \<Rightarrow> arg_value \<Rightarrow> arg_bag" where
  "dict_set [] key v = [(key, v)]"
| "dict_set ((k, w) # d) key v =
     (if k = key then (k, v) # d else (k, w) # dict_set d key v)"

text \<open>Python truthiness of a bag value (\<^verbatim>\<open>if value:\<close>).\<close>

fun truthy :: "arg_value \<Rightarrow> bool" where
  "truthy (StrV s) = (s \<noteq> [])"
| "truthy (BoolV b) = b"

text \<open>
  The body of the loop of \<^verbatim>\<open>execute_upload_assistant\<close> (lines 350-356):
  \<^verbatim>\<open>
    for key, value in args.items():
        if value:
            if isinstance(value, bool):
                if value: cmd.append(f"--{key}")
            else:
                cmd.extend([f"--{key}", str(value)])
  \<close>
\<close>

definition add_arg :: "string \<times> arg_value \<Rightarrow> string list \<Rightarrow> string list" where
  "add_arg kv cmd =
     (case kv of (key, v) \<Rightarrow>
        if truthy v then
          (case v of
             BoolV b \<Rightarrow> (if b then cmd @ [''--'' @ key] else cmd)
           | StrV s \<Rightarrow> cmd @ [''--'' @ key, s])
        else cmd)"

definition build_cmd :: "string \<Rightarrow> string \<Rightarrow> arg_bag \<Rightarrow> string list" where
  "build_cmd ua_path file_path args = fold add_arg args [ua_path, file_path]"

text \<open>The flags of a command: what follows the executable and the target path.\<close>

definition flags_of :: "string list \<Rightarrow> string list" where
  "flags_of cmd = drop 2 cmd"

text \<open>What one key contributes, read off the three cases of the loop body.\<close>

fun emit_spec :: "string \<times> arg_value \<Rightarrow> string list" where
  "emit_spec (key, BoolV True) = [''--'' @ key]"
| "emit_spec (key, BoolV False) = []"
| "emit_spec (key, StrV s) = (if s = [] then [] else [''--'' @ key, s])"

subsection \<open>The arguments dialog\<close>

text \<open>
  \<^verbatim>\<open>UAArgsDialog.create_arg_widgets\<close> fills \<^verbatim>\<open>self.arg_vars\<close> with one variable
  per key: first the twelve text keys of \<^verbatim>\<open>ua_args\<close>, then the five keys of
  \<^verbatim>\<open>boolean_args\<close>, in the order the two literals list them.
\<close>

definition ua_args :: "string list" where
  "ua_args = [''tmdb'', ''imdb'', ''mal'', ''category'', ''type'', ''source'', ''edition'',
              ''resolution'', ''tag'', ''region'', ''season'', ''episode'']"

definition boolean_args :: "string list" where
  "boolean_args = [''freeleech'', ''daily'', ''no_dupe'', ''skip_imghost'', ''personalrelease'']"

definition dialog_keys :: "string list" where
  "dialog_keys = ua_args @ boolean_args"

text \<open>
  The state of the dialog when the operator presses Launch: the text typed for each text
  key and the state of each check box. \<open>arg_vars\<close> is the dictionary of variables, a
  \<open>StrV\<close> for a \<^verbatim>\<open>StringVar\<close> and a \<open>BoolV\<close> for a \<^verbatim>\<open>BooleanVar\<close>.
\<close>

definition arg_vars :: "(string \<Rightarrow> string) \<Rightarrow> (string \<Rightarrow> bool) \<Rightarrow> arg_bag" where
  "arg_vars texts checks =
     map (\<lambda>k. (k, StrV (texts k))) ua_args @ map (\<lambda>k. (k, BoolV (checks k))) boolean_args"

text \<open>
  \<^verbatim>\<open>UAArgsDialog.launch\<close>, the part that prepares \<^verbatim>\<open>self.result\<close> (lines 511-518):
  a boolean is always stored, a text only when it is not empty after \<^verbatim>\<open>strip()\<close>.
  Lines 504-508 before it write the values back to the configuration; they do not touch
  the result and are not part of the embedding.
\<close>

definition launch_step :: "string \<times> arg_value \<Rightarrow> arg_bag \<Rightarrow> arg_bag" where
  "launch_step kv result =
     (case kv of (key, var) \<Rightarrow>
        (case var of
           BoolV b \<Rightarrow> dict_set result key (BoolV b)
         | StrV s \<Rightarrow> (let v = strip s in if v \<noteq> [] then dict_set result key (StrV v) else result)))"

definition dialog_launch :: "arg_bag \<Rightarrow> arg_bag" where
  "dialog_launch vars = fold launch_step vars []"

section \<open>Paths and the filesystem\<close>

text \<open>
  \<^verbatim>\<open>os.path.join\<close>, \<^verbatim>\<open>os.path.basename\<close> and \<^verbatim>\<open>os.path.dirname\<close> of posixpath,
  for two components.
\<close>

definition join :: "string \<Rightarrow> string \<Rightarrow> string" where
  "join a b =
     (if startswith b ''/'' then b
      else if a = [] \<or> endswith a ''/'' then a @ b
      else a @ ''/'' @ b)"

definition basename :: "string \<Rightarrow> string" where
  "basename p = rev (takeWhile (\<lambda>c. c \<noteq> CHR ''/'') (rev p))"

definition dirname :: "string \<Rightarrow> string" where
  "dirname p =
     (let head = rev (dropWhile (\<lambda>c. c \<noteq> CHR ''/'') (rev p))
      in if head \<noteq> [] \<and> \<not> list_all (\<lambda>c. c = CHR ''/'') head
         then rev (dropWhile (\<lambda>c. c = CHR ''/'') (rev head))
         else head)"

text \<open>
  A snapshot of the filesystem maps a path to what is there: a file with its text (or
  \<open>None\<close> when opening or reading it raises), or a directory with the names
  \<^verbatim>\<open>os.listdir\<close> gives, in the order the operating system gives them, and a flag
  telling whether listing is permitted.
\<close>

datatype fsnode = File "string option" | Dir bool "string list"

type_synonym filesystem = "string \<Rightarrow> fsnode option"

definition path_exists :: "filesystem \<Rightarrow> string \<Rightarrow> bool" where
  "path_exists fs p = (case fs p of None \<Rightarrow> False | Some n \<Rightarrow> True)"

definition isdir :: "filesystem \<Rightarrow> string \<Rightarrow> bool" where
  "isdir fs p = (case fs p of Some (Dir r names) \<Rightarrow> True | _ \<Rightarrow> False)"

definition isfile :: "filesystem \<Rightarrow> string \<Rightarrow> bool" where
  "isfile fs p = (case fs p of Some (File c) \<Rightarrow> True | _ \<Rightarrow> False)"

definition listdir :: "filesystem \<Rightarrow> string \<Rightarrow> py_error + string list" where
  "listdir fs p =
     (case fs p of
        None \<Rightarrow> Inl FileNotFoundError
      | Some (File c) \<Rightarrow> Inl NotADirectoryError
      | Some (Dir r names) \<Rightarrow> (if r then Inr names else Inl PermissionError))"

text \<open>\<^verbatim>\<open>with open(p, 'r') as f: f.read()\<close>\<close>

definition read_file :: "filesystem \<Rightarrow> string \<Rightarrow> py_error + string" where
  "read_file fs p =
     (case fs p of
        None \<Rightarrow> Inl FileNotFoundError
      | Some (Dir r names) \<Rightarrow> Inl IsADirectoryError
      | Some (File None) \<Rightarrow> Inl ReadError
      | Some (File (Some c)) \<Rightarrow> Inr c)"

text \<open>
  \<^verbatim>\<open>UAConfig.get(section, key)\<close>: the stored value, or the fallback, which is the
  empty string at every call of the program.
\<close>

type_synonym config = "string \<times> string \<Rightarrow> string option"

definition config_get :: "config \<Rightarrow> string \<Rightarrow> string \<Rightarrow> string" where
  "config_get cfg sec key = (case cfg (sec, key) of Some v \<Rightarrow> v | None \<Rightarrow> [])"

section \<open>FilterPanel: the directory tree\<close>

text \<open>
  The \<^verbatim>\<open>ttk.Treeview\<close> holds items with a text, a tuple of values and children. The
  root item (Tk's \<^verbatim>\<open>""\<close>) is the top node; an item is named by the positions that
  lead to it from the root, the root being \<open>[]\<close>. An operation on an item that is not
  in the tree raises \<^verbatim>\<open>TclError\<close>.
\<close>

datatype tnode = TNode (item_text: string) (item_values: "string list") (children: "tnode list")

type_synonym item_id = "nat list"

fun get_node :: "tnode \<Rightarrow> item_id \<Rightarrow> tnode option" where
  "get_node t [] = Some t"
| "get_node t (i # p) =
     (if i < length (children t) then get_node (children t ! i) p else None)"

fun upd_node :: "item_id \<Rightarrow> (tnode \<Rightarrow> tnode) \<Rightarrow> tnode \<Rightarrow> tnode" where
  "upd_node [] f t = f t"
| "upd_node (i # p) f (TNode x v ks) =
     TNode x v (if i < length ks then ks[i := upd_node p f (ks ! i)] else ks)"

definition add_child :: "tnode \<Rightarrow> tnode \<Rightarrow> tnode" where
  "add_child c n = TNode (item_text n) (item_values n) (children n @ [c])"

definition remove_child :: "nat \<Rightarrow> tnode \<Rightarrow> tnode" where
  "remove_child i n =
     TNode (item_text n) (item_values n) (take i (children n) @ drop (Suc i) (children n))"

text \<open>\<^verbatim>\<open>tree.insert(parent, "end", text=txt, values=vals)\<close>: the new item and the tree.\<close>

definition tv_insert ::
    "tnode \<Rightarrow> item_id \<Rightarrow> string \<Rightarrow> string list \<Rightarrow> py_error + (item_id \<times> tnode)" where
  "tv_insert tree parent txt vals =
     (case get_node tree parent of
        None \<Rightarrow> Inl TclError
      | Some n \<Rightarrow>
          Inr (parent @ [length (children n)], upd_node parent (add_child (TNode txt vals [])) tree))"

text \<open>\<^verbatim>\<open>tree.delete(item)\<close>: the item leaves its parent, with everything below it.\<close>

definition tv_delete :: "tnode \<Rightarrow> item_id \<Rightarrow> py_error + tnode" where
  "tv_delete tree item =
     (if item = [] then Inl TclError
      else (case get_node tree item of
              None \<Rightarrow> Inl TclError
            | Some n \<Rightarrow> Inr (upd_node (butlast item) (remove_child (last item)) tree)))"

definition tv_get_children :: "tnode \<Rightarrow> item_id \<Rightarrow> py_error + item_id list" where
  "tv_get_children tree item =
     (case get_node tree item of
        None \<Rightarrow> Inl TclError
      | Some n \<Rightarrow> Inr (map (\<lambda>i. item @ [i]) [0..<length (children n)]))"

definition tv_text :: "tnode \<Rightarrow> item_id \<Rightarrow> py_error + string" where
  "tv_text tree item =
     (case get_node tree item of None \<Rightarrow> Inl TclError | Some n \<Rightarrow> Inr (item_text n))"

definition tv_values :: "tnode \<Rightarrow> item_id \<Rightarrow> py_error + string list" where
  "tv_values tree item =
     (case get_node tree item of None \<Rightarrow> Inl TclError | Some n \<Rightarrow> Inr (item_values n))"

text \<open>The tree after \<^verbatim>\<open>tree.delete(*tree.get_children())\<close>: a root with no item.\<close>

definition empty_tree :: tnode where
  "empty_tree = TNode [] [] []"

text \<open>
  Line 150 of \<^verbatim>\<open>populate_tree\<close>, the test for the expand marker:
  \<^verbatim>\<open>any(os.path.isdir(os.path.join(item_path, x)) for x in os.listdir(item_path))\<close>
\<close>

definition has_subdirs :: "filesystem \<Rightarrow> string \<Rightarrow> py_error + bool" where
  "has_subdirs fs item_path =
     (case listdir fs item_path of
        Inl e \<Rightarrow> Inl e
      | Inr xs \<Rightarrow> Inr (list_ex (\<lambda>x. isdir fs (join item_path x)) xs))"

text \<open>
  The inner \<^verbatim>\<open>try\<close> of lines 149-153 as a unit: whether the marker is shown for a
  directory. A \<^verbatim>\<open>PermissionError\<close> is passed over, any other exception leaves the
  block.
\<close>

definition probe :: "filesystem \<Rightarrow> string \<Rightarrow> py_error + bool" where
  "probe fs item_path =
     (case has_subdirs fs item_path of
        Inl e \<Rightarrow> (if e = PermissionError then Inr False else Inl e)
      | Inr b \<Rightarrow> Inr b)"

text \<open>The body of the loop of lines 146-153, for one \<^verbatim>\<open>(item, item_path)\<close>.\<close>

definition add_item ::
    "filesystem \<Rightarrow> item_id \<Rightarrow> string \<times> string \<Rightarrow> tnode \<Rightarrow> py_error + tnode" where
  "add_item fs parent it tree =
     (case it of (item, item_path) \<Rightarrow>
        (case tv_insert tree parent item [item_path] of
           Inl e \<Rightarrow> Inl e
         | Inr (node, tree1) \<Rightarrow>
             (case probe fs item_path of
                Inl e \<Rightarrow> Inl e
              | Inr b \<Rightarrow>
                  if b then
                    (case tv_insert tree1 node ''Loading...'' [] of
                       Inl e \<Rightarrow> Inl e
                     | Inr (ph, tree2) \<Rightarrow> Inr tree2)
                  else Inr tree1)))"

fun add_items ::
    "filesystem \<Rightarrow> item_id \<Rightarrow> (string \<times> string) list \<Rightarrow> tnode \<Rightarrow> py_error + tnode" where
  "add_items fs parent [] tree = Inr tree"
| "add_items fs parent (it # its) tree =
     (case add_item fs parent it tree of
        Inl e \<Rightarrow> Inl e
      | Inr tree1 \<Rightarrow> add_items fs parent its tree1)"

text \<open>Lines 139-145: the subdirectories of \<open>path\<close> with their paths, sorted.\<close>

definition dir_items :: "filesystem \<Rightarrow> string \<Rightarrow> string list \<Rightarrow> (string \<times> string) list" where
  "dir_items fs path names =
     sort (map (\<lambda>item. (item, join path item))
               (filter (\<lambda>item. isdir fs (join path item)) names))"

text \<open>
  \<^verbatim>\<open>FilterPanel.populate_tree(parent, path)\<close>. The outer handler passes over a
  \<^verbatim>\<open>PermissionError\<close> of \<^verbatim>\<open>os.listdir(path)\<close>; other exceptions leave the function.
\<close>

definition populate_tree ::
    "filesystem \<Rightarrow> item_id \<Rightarrow> string \<Rightarrow> tnode \<Rightarrow> py_error + tnode" where
  "populate_tree fs parent path tree =
     (case listdir fs path of
        Inl e \<Rightarrow> (if e = PermissionError then Inr tree else Inl e)
      | Inr names \<Rightarrow> add_items fs parent (dir_items fs path names) tree)"

text \<open>\<^verbatim>\<open>FilterPanel.refresh_directory_tree\<close>, for the base path shown in the panel.\<close>

definition refresh_directory_tree :: "filesystem \<Rightarrow> string \<Rightarrow> py_error + tnode" where
  "refresh_directory_tree fs base_path =
     (if path_exists fs base_path then populate_tree fs [] base_path empty_tree
      else Inr empty_tree)"

text \<open>
  \<^verbatim>\<open>FilterPanel.on_dir_select\<close>, for the tuple \<^verbatim>\<open>self.dir_tree.selection()\<close>. The
  result is the path handed to \<^verbatim>\<open>on_selection_change\<close> (if any) and the tree. The
  callback works on the file panel only and is described with it.
\<close>

definition on_dir_select ::
    "filesystem \<Rightarrow> item_id list \<Rightarrow> tnode \<Rightarrow> py_error + (string option \<times> tnode)" where
  "on_dir_select fs selection tree =
     (case selection of
        [] \<Rightarrow> Inr (None, tree)
      | item # others \<Rightarrow>
          (case tv_values tree item of
             Inl e \<Rightarrow> Inl e
           | Inr [] \<Rightarrow> Inr (None, tree)
           | Inr (selected_path # vs) \<Rightarrow>
               (case tv_get_children tree item of
                  Inl e \<Rightarrow> Inl e
                | Inr [c] \<Rightarrow>
                    (case tv_text tree c of
                       Inl e \<Rightarrow> Inl e
                     | Inr t \<Rightarrow>
                         if t = ''Loading...'' then
                           (case tv_delete tree c of
                              Inl e \<Rightarrow> Inl e
                            | Inr tree1 \<Rightarrow>
                                (case populate_tree fs item selected_path tree1 of
                                   Inl e \<Rightarrow> Inl e
                                 | Inr tree2 \<Rightarrow> Inr (Some selected_path, tree2)))
                         else Inr (Some selected_path, tree))
                | Inr cs \<Rightarrow> Inr (Some selected_path, tree))))"

section \<open>FilePanel: the listing\<close>

text \<open>
  The state of the right panel: the lines of \<^verbatim>\<open>self.file_listbox\<close>, its
  \<^verbatim>\<open>curselection()\<close> (a tuple of indices), \<^verbatim>\<open>self.current_files\<close>, and
  \<^verbatim>\<open>self.current_directory\<close>, which is absent until the first call of
  \<^verbatim>\<open>update_files\<close>.
\<close>

record file_panel =
  listbox :: "string list"
  curselection :: "int list"
  current_files :: "string list"
  current_directory :: "string option"

text \<open>
  What the operator or the operating system sees of an operation: message boxes, the
  dialogs opened, the rename asked of the operating system, the processes started. A
  message built from an exception keeps its fixed part only.
\<close>

datatype event =
    ShowWarning string
  | ShowError string
  | ShowInfo string
  | AskString string
  | OsRename string string
  | OpenArgsDialog string
  | Popen "string list"
  | Run "string list"

text \<open>
  Lines 273-276: the lines of one log file that are kept. Line feed is \<open>CHR 0x0A\<close>.
\<close>

definition missing_line :: "string \<Rightarrow> bool" where
  "missing_line line = (contains ''missing'' (lower line) \<and> contains ''torrent'' (lower line))"

definition scan_lines :: "string list \<Rightarrow> string list \<Rightarrow> string list" where
  "scan_lines lines missing_files =
     fold (\<lambda>line acc. if missing_line line then acc @ [strip line] else acc) lines missing_files"

text \<open>
  Lines 266-278: one log file. An exception while opening or reading is printed and the
  file skipped.
\<close>

definition scan_log :: "filesystem \<Rightarrow> string \<Rightarrow> string \<Rightarrow> string list \<Rightarrow> string list" where
  "scan_log fs logs_dir log_file missing_files =
     (case read_file fs (join logs_dir log_file) of
        Inl e \<Rightarrow> missing_files
      | Inr content \<Rightarrow> scan_lines (split_on (CHR 0x0A) content) missing_files)"

text \<open>Lines 280-282: one entry enters the list box and \<^verbatim>\<open>current_files\<close>.\<close>

definition add_missing :: "string \<Rightarrow> file_panel \<Rightarrow> file_panel" where
  "add_missing missing st =
     st\<lparr>listbox := listbox st @ [''[MISSING] '' @ missing],
        current_files := current_files st @ [missing]\<rparr>"

text \<open>\<^verbatim>\<open>FilePanel.load_missing_torrents\<close>: the events and the panel.\<close>

definition load_missing_torrents ::
    "filesystem \<Rightarrow> config \<Rightarrow> file_panel \<Rightarrow> event list \<times> file_panel" where
  "load_missing_torrents fs cfg st =
     (let logs_dir = config_get cfg ''PATHS'' ''logs_dir'' in
      if \<not> path_exists fs logs_dir then
        ([ShowWarning (''Logs directory not found: '' @ logs_dir)], st)
      else
        (case listdir fs logs_dir of
           Inl e \<Rightarrow> ([ShowError ''Error loading missing torrents''], st)
         | Inr names \<Rightarrow>
             (let log_files = filter (\<lambda>f. endswith f ''.log'') names;
                  missing_files = fold (scan_log fs logs_dir) log_files []
              in ([], fold add_missing missing_files st))))"

text \<open>Lines 247-249: one entry of the plain listing.\<close>

definition add_file :: "string \<Rightarrow> string \<Rightarrow> file_panel \<Rightarrow> file_panel" where
  "add_file directory file st =
     st\<lparr>listbox := listbox st @ [file],
        current_files := current_files st @ [join directory file]\<rparr>"

text \<open>
  \<^verbatim>\<open>FilePanel.update_files(directory, show_missing_only)\<close>: the exception that leaves
  the function (if any), the events and the panel. Clearing the list box clears its
  selection.
\<close>

definition update_files ::
    "filesystem \<Rightarrow> config \<Rightarrow> string \<Rightarrow> bool \<Rightarrow> file_panel
      \<Rightarrow> py_error option \<times> event list \<times> file_panel" where
  "update_files fs cfg directory show_missing_only st =
     (let st1 = st\<lparr>current_directory := Some directory, listbox := [],
                    curselection := [], current_files := []\<rparr>
      in if \<not> path_exists fs directory then (None, [], st1)
         else if show_missing_only then
           (case load_missing_torrents fs cfg st1 of (evs, st2) \<Rightarrow> (None, evs, st2))
         else
           (case listdir fs directory of
              Inl e \<Rightarrow>
                (if e = PermissionError
                 then (None, [ShowError (''Permission denied accessing: '' @ directory)], st1)
                 else (Some e, [], st1))
            | Inr names \<Rightarrow>
                (let files = sort (filter (\<lambda>item. isfile fs (join directory item)
                                                  \<or> isdir fs (join directory item)) names)
                 in (None, [], fold (add_file directory) files st1))))"

text \<open>\<^verbatim>\<open>FilePanel.refresh_files\<close>\<close>

definition refresh_files ::
    "filesystem \<Rightarrow> config \<Rightarrow> file_panel \<Rightarrow> py_error option \<times> event list \<times> file_panel" where
  "refresh_files fs cfg st =
     (case current_directory st of
        None \<Rightarrow> (None, [], st)
      | Some d \<Rightarrow> update_files fs cfg d False st)"

section \<open>FilePanel: selection, rename and launch\<close>

text \<open>Python's \<^verbatim>\<open>xs[i]\<close>: a negative index counts from the end.\<close>

definition py_index :: "'a list \<Rightarrow> int \<Rightarrow> py_error + 'a" where
  "py_index xs i =
     (let n = int (length xs); j = (if i < 0 then n + i else i)
      in if 0 \<le> j \<and> j < n then Inr (xs ! nat j) else Inl IndexError)"

text \<open>\<^verbatim>\<open>FilePanel.get_selected_file\<close>\<close>

definition get_selected_file :: "file_panel \<Rightarrow> py_error + string option" where
  "get_selected_file st =
     (case curselection st of
        [] \<Rightarrow> Inr None
      | index # others \<Rightarrow>
          if index < int (length (current_files st)) then
            (case py_index (current_files st) index of
               Inl e \<Rightarrow> Inl e
             | Inr f \<Rightarrow> Inr (Some f))
          else Inr None)"

definition quoted :: "string \<Rightarrow> string" where
  "quoted s = [CHR 0x27] @ s @ [CHR 0x27]"

text \<open>
  \<^verbatim>\<open>FilePanel.rename_file\<close>. \<open>os_rename\<close> is \<^verbatim>\<open>os.rename\<close> on a snapshot: the
  exception it raises or the filesystem after it. \<open>answer\<close> is what
  \<^verbatim>\<open>simpledialog.askstring\<close> returns. The result is the exception that leaves the
  function (if any), the events, the panel and the filesystem.
\<close>

definition rename_file ::
    "(filesystem \<Rightarrow> string \<Rightarrow> string \<Rightarrow> py_error + filesystem) \<Rightarrow> filesystem \<Rightarrow> config
      \<Rightarrow> string option \<Rightarrow> file_panel
      \<Rightarrow> py_error option \<times> event list \<times> file_panel \<times> filesystem" where
  "rename_file os_rename fs cfg answer st =
     (case get_selected_file st of
        Inl e \<Rightarrow> (Some e, [], st, fs)
      | Inr None \<Rightarrow> (None, [ShowWarning ''Please select a file to rename''], st, fs)
      | Inr (Some selected_file) \<Rightarrow>
          if selected_file = [] then
            (None, [ShowWarning ''Please select a file to rename''], st, fs)
          else
            (let old_name = basename selected_file in
             case answer of
               None \<Rightarrow> (None, [AskString old_name], st, fs)
             | Some new_name \<Rightarrow>
                 if new_name \<noteq> [] \<and> new_name \<noteq> old_name then
                   (let old_path = selected_file;
                        new_path = join (dirname selected_file) new_name
                    in case os_rename fs old_path new_path of
                         Inl e \<Rightarrow>
                           (None, [AskString old_name, OsRename old_path new_path,
                                   ShowError ''Failed to rename file''], st, fs)
                       | Inr fs1 \<Rightarrow>
                           (case refresh_files fs1 cfg st of
                              (None, evs, st1) \<Rightarrow>
                                (None, [AskString old_name, OsRename old_path new_path] @ evs @
                                       [ShowInfo (''Renamed '' @ quoted old_name @ '' to '' @
                                                  quoted new_name)], st1, fs1)
                            | (Some e, evs, st1) \<Rightarrow>
                                (None, [AskString old_name, OsRename old_path new_path] @ evs @
                                       [ShowError ''Failed to rename file''], st1, fs1)))
                 else (None, [AskString old_name], st, fs)))"

text \<open>
  The operating system as \<^verbatim>\<open>execute_upload_assistant\<close> meets it: \<^verbatim>\<open>os.name\<close>, and
  for \<^verbatim>\<open>subprocess.Popen\<close> and \<^verbatim>\<open>subprocess.run\<close> the exception raised for an
  argument vector (\<open>None\<close>: the process started).
\<close>

record os_env =
  os_name :: string
  popen :: "string list \<Rightarrow> py_error option"
  subprocess_run :: "string list \<Rightarrow> py_error option"

text \<open>\<^verbatim>\<open>' '.join(cmd)\<close>\<close>

fun join_words :: "string list \<Rightarrow> string" where
  "join_words [] = []"
| "join_words [w] = w"
| "join_words (w # v # ws) = w @ '' '' @ join_words (v # ws)"

definition terminals :: "string list" where
  "terminals = [''gnome-terminal'', ''xterm'', ''konsole'', ''terminator'']"

definition terminal_argv :: "string \<Rightarrow> string list \<Rightarrow> string list" where
  "terminal_argv terminal cmd =
     [terminal, if terminal = ''gnome-terminal'' then ''--'' else ''-e'', ''bash'', ''-c'',
      join_words cmd @ ''; read -p '' @ [CHR 0x22] @ ''Press Enter to continue...'' @ [CHR 0x22]]"

text \<open>
  Lines 365-376, the \<^verbatim>\<open>for ... else\<close>: the first terminal that starts ends the loop,
  \<^verbatim>\<open>FileNotFoundError\<close> moves on to the next one, and when the list is used up the
  command runs in the current session.
\<close>

fun try_terminals :: "os_env \<Rightarrow> string list \<Rightarrow> string list \<Rightarrow> py_error option \<times> event list" where
  "try_terminals env cmd [] = (subprocess_run env cmd, [Run cmd])"
| "try_terminals env cmd (terminal # rest) =
     (case popen env (terminal_argv terminal cmd) of
        None \<Rightarrow> (None, [Popen (terminal_argv terminal cmd)])
      | Some e \<Rightarrow>
          if e = FileNotFoundError then
            (case try_terminals env cmd rest of
               (r, evs) \<Rightarrow> (r, Popen (terminal_argv terminal cmd) # evs))
          else (Some e, [Popen (terminal_argv terminal cmd)]))"

text \<open>\<^verbatim>\<open>FilePanel.execute_upload_assistant(file_path, args)\<close>: the events.\<close>

definition execute_upload_assistant ::
    "os_env \<Rightarrow> config \<Rightarrow> string \<Rightarrow> arg_bag \<Rightarrow> event list" where
  "execute_upload_assistant env cfg file_path args =
     (let ua_path = config_get cfg ''PATHS'' ''upload_assistant_path'';
          cmd = build_cmd ua_path file_path args
      in case (if os_name env = ''nt''
               then (popen env ([''cmd'', ''/c'', ''start'', ''cmd'', ''/k''] @ cmd),
                     [Popen ([''cmd'', ''/c'', ''start'', ''cmd'', ''/k''] @ cmd)])
               else try_terminals env cmd terminals) of
           (None, evs) \<Rightarrow> evs
         | (Some e, evs) \<Rightarrow> evs @ [ShowError ''Failed to launch upload assistant''])"

text \<open>
  \<^verbatim>\<open>UAArgsDialog.__init__\<close> (lines 383-401) sets \<^verbatim>\<open>self.result = None\<close>, builds the
  window and returns. Nothing in it waits for the window or for the operator, and
  \<^verbatim>\<open>UAArgsDialog.launch\<close>, the only place that stores a bag, runs later from the
  Launch button. So the value of \<^verbatim>\<open>ua_dialog.result\<close> after the constructor is the
  one the constructor set.
\<close>

definition ua_dialog_result :: "config \<Rightarrow> string \<Rightarrow> arg_bag option" where
  "ua_dialog_result cfg file_path = None"

text \<open>
  \<^verbatim>\<open>FilePanel.launch_upload_assistant\<close>: the exception that leaves the function (if
  any) and the events. Line 326 reads \<^verbatim>\<open>ua_dialog.result\<close> right after the
  constructor; an empty dict is false for \<^verbatim>\<open>if ua_dialog.result:\<close>.
\<close>

definition launch_upload_assistant ::
    "os_env \<Rightarrow> config \<Rightarrow> file_panel \<Rightarrow> py_error option \<times> event list" where
  "launch_upload_assistant env cfg st =
     (case get_selected_file st of
        Inl e \<Rightarrow> (Some e, [])
      | Inr None \<Rightarrow> (None, [ShowWarning ''Please select a file for upload assistant''])
      | Inr (Some selected_file) \<Rightarrow>
          if selected_file = [] then
            (None, [ShowWarning ''Please select a file for upload assistant''])
          else
            (case ua_dialog_result cfg selected_file of
               None \<Rightarrow> (None, [OpenArgsDialog selected_file])
             | Some result \<Rightarrow>
                 if result \<noteq> [] then
                   (None, OpenArgsDialog selected_file #
                          execute_upload_assistant env cfg selected_file result)
                 else (None, [OpenArgsDialog selected_file])))"

section \<open>Notions used to state the properties\<close>

text \<open>
  What \<^verbatim>\<open>UAArgsDialog.launch\<close> keeps of one dialog variable, and the flags a bag
  gives for one key when it is read as a mapping.
\<close>

fun keep :: "string \<times> arg_value \<Rightarrow> arg_bag" where
  "keep (k, BoolV b) = [(k, BoolV b)]"
| "keep (k, StrV s) = (if strip s \<noteq> [] then [(k, StrV (strip s))] else [])"

definition flags_at :: "arg_bag \<Rightarrow> string \<Rightarrow> string list" where
  "flags_at bag k = (case map_of bag k of None \<Rightarrow> [] | Some v \<Rightarrow> emit_spec (k, v))"

text \<open>
  The listing the operator sees, entry by entry: the label in the list box and the path
  kept for it. \<open>panel_of\<close> picks the panel out of the result of an operation.
\<close>

definition entries :: "file_panel \<Rightarrow> (string \<times> string) list" where
  "entries st = zip (listbox st) (current_files st)"

definition panel_of :: "py_error option \<times> event list \<times> file_panel \<Rightarrow> file_panel" where
  "panel_of r = snd (snd r)"

definition events_of :: "py_error option \<times> event list \<times> file_panel \<Rightarrow> event list" where
  "events_of r = fst (snd r)"

text \<open>The panel after \<^verbatim>\<open>FilePanel.__init__\<close>.\<close>

definition init_panel :: file_panel where
  "init_panel = \<lparr>listbox = [], curselection = [], current_files = [], current_directory = None\<rparr>"

text \<open>
  The lines of one log file (none when it cannot be read), and the lines of the log
  directory that the specification selects: over the files whose name ends in
  \<^verbatim>\<open>.log\<close>, file by file and line by line, those with both words.
\<close>

definition log_lines :: "filesystem \<Rightarrow> string \<Rightarrow> string \<Rightarrow> string list" where
  "log_lines fs logs_dir log_file =
     (case read_file fs (join logs_dir log_file) of
        Inl e \<Rightarrow> []
      | Inr content \<Rightarrow> split_on (CHR 0x0A) content)"

definition kept_lines :: "filesystem \<Rightarrow> string \<Rightarrow> string list \<Rightarrow> string list" where
  "kept_lines fs logs_dir names =
     concat (map (\<lambda>f. filter missing_line (log_lines fs logs_dir f))
                 (filter (\<lambda>f. endswith f ''.log'') names))"

text \<open>The entries the logs give, as a function of the filesystem and the configuration.\<close>

definition missing_files_of :: "filesystem \<Rightarrow> config \<Rightarrow> string list" where
  "missing_files_of fs cfg =
     (case listdir fs (config_get cfg ''PATHS'' ''logs_dir'') of
        Inl e \<Rightarrow> []
      | Inr names \<Rightarrow> map strip (kept_lines fs (config_get cfg ''PATHS'' ''logs_dir'') names))"

text \<open>The messages of the log scan; they do not depend on the panel.\<close>

definition missing_events :: "filesystem \<Rightarrow> config \<Rightarrow> event list" where
  "missing_events fs cfg = fst (load_missing_torrents fs cfg init_panel)"

text \<open>
  A filesystem and a configuration for the scenarios: the base path with the
  subdirectories B, a and C and one file, and a log directory with one log file of three
  lines.
\<close>

definition example_fs :: filesystem where
  "example_fs =
     [''/data/torrents'' \<mapsto> Dir True [''B'', ''a'', ''f.txt'', ''C''],
      ''/data/torrents/B'' \<mapsto> Dir True [],
      ''/data/torrents/a'' \<mapsto> Dir False [''x''],
      ''/data/torrents/C'' \<mapsto> Dir True [''y'', ''z''],
      ''/data/torrents/C/z'' \<mapsto> Dir True [],
      ''/data/torrents/C/y'' \<mapsto> File (Some []),
      ''/data/torrents/f.txt'' \<mapsto> File (Some ''hello''),
      ''/logs'' \<mapsto> Dir True [''a.log''],
      ''/logs/a.log'' \<mapsto> File (Some (''ok'' @ [CHR 0x0A] @ ''Missing Torrent: foo.mkv'' @
                                        [CHR 0x0A] @ ''torrentmissingbar''))]"



definition example_cfg :: config where
  "example_cfg =
     [(''PATHS'', ''logs_dir'') \<mapsto> ''/logs'',
      (''PATHS'', ''upload_assistant_path'') \<mapsto> ''upload-assistant'']"

text \<open>
  The item \<^verbatim>\<open>populate_tree\<close> makes for one subdirectory: its name, its path as the
  only value, and the marker \<open>Loading...\<close> below it when the test of line 150 holds.
\<close>

definition placeholder :: tnode where
  "placeholder = TNode ''Loading...'' [] []"

definition new_node :: "filesystem \<Rightarrow> string \<times> string \<Rightarrow> tnode" where
  "new_node fs it =
     TNode (fst it) [snd it] (if probe fs (snd it) = Inr True then [placeholder] else [])"

definition add_children :: "tnode list \<Rightarrow> tnode \<Rightarrow> tnode" where
  "add_children cs n = TNode (item_text n) (item_values n) (children n @ cs)"

text \<open>
  A filesystem where the only subdirectory of \<^verbatim>\<open>/base/d\<close> is named like the marker.
\<close>

definition sentinel_fs :: filesystem where
  "sentinel_fs =
     [''/base'' \<mapsto> Dir True [''d''],
      ''/base/d'' \<mapsto> Dir True [''Loading...''],
      ''/base/d/Loading...'' \<mapsto> Dir True [''x''],
      ''/base/d/Loading.../x'' \<mapsto> Dir True []]"

text \<open>
  Two states of the tree over \<open>sentinel_fs\<close>: \<^verbatim>\<open>/base/d\<close> expanded, and then its
  child expanded too.
\<close>

definition sentinel_tree1 :: tnode where
  "sentinel_tree1 =
     TNode [] []
       [TNode ''d'' [''/base/d'']
          [TNode ''Loading...'' [''/base/d/Loading...''] [TNode ''Loading...'' [] []]]]"

definition sentinel_tree2 :: tnode where
  "sentinel_tree2 =
     TNode [] []
       [TNode ''d'' [''/base/d'']
          [TNode ''Loading...'' [''/base/d/Loading...'']
             [TNode ''x'' [''/base/d/Loading.../x''] []]]]"

text \<open>The parts of the result of \<^verbatim>\<open>rename_file\<close>.\<close>

definition rename_error ::
    "py_error option \<times> event list \<times> file_panel \<times> filesystem \<Rightarrow> py_error option" where
  "rename_error r = fst r"

definition rename_events ::
    "py_error option \<times> event list \<times> file_panel \<times> filesystem \<Rightarrow> event list" where
  "rename_events r = fst (snd r)"

text \<open>
  \<^verbatim>\<open>os.rename\<close> for an entry whose parent directory is not part of the snapshot (a
  relative path in the working directory): \<^verbatim>\<open>FileNotFoundError\<close> when nothing is at
  the old path, otherwise what was there is at the new path.
\<close>

definition move_entry :: "filesystem \<Rightarrow> string \<Rightarrow> string \<Rightarrow> py_error + filesystem" where
  "move_entry fs old_path new_path =
     (case fs old_path of
        None \<Rightarrow> Inl FileNotFoundError
      | Some n \<Rightarrow> Inr (fs(old_path := None, new_path \<mapsto> n)))"

text \<open>
  The scenario with a file in the working directory whose name is the first line the
  log scan keeps.
\<close>

definition cwd_fs :: filesystem where
  "cwd_fs = example_fs(''Missing Torrent: foo.mkv'' \<mapsto> File (Some ''data''))"

text \<open>An operating system other than Windows on which every program starts.\<close>

definition posix_env :: os_env where
  "posix_env = \<lparr>os_name = ''posix'', popen = (\<lambda>argv. None), subprocess_run = (\<lambda>argv. None)\<rparr>"

text \<open>The panel of the scenario after a refresh under the filter, first line selected.\<close>

definition example_missing_panel :: file_panel where
  "example_missing_panel =
     (panel_of (update_files example_fs example_cfg ''/data/torrents'' True init_panel))
       \<lparr>curselection := [0]\<rparr>"

section \<open>Command building: properties\<close>

lemma fold_add_arg: "fold add_arg args cmd = cmd @ concat (map emit_spec args)"
proof (induction args arbitrary: cmd)
  case Nil
  show ?case by simp
next
  case (Cons kv args)
  obtain key v where kv: "kv = (key, v)" by (cases kv)
  have "add_arg kv cmd = cmd @ emit_spec kv"
  proof (cases v)
    case (StrV s)
    with kv show ?thesis by (simp add: add_arg_def)
  next
    case (BoolV b)
    with kv show ?thesis by (cases b) (simp_all add: add_arg_def)
  qed
  with Cons.IH [of "add_arg kv cmd"] show ?case by simp
qed

lemma emit_spec_falsy: "\<not> truthy v \<Longrightarrow> emit_spec (k, v) = []"
  by (cases v) auto

lemma all_falsy_no_flags:
  "\<forall>kv \<in> set args. \<not> truthy (snd kv) \<Longrightarrow> concat (map emit_spec args) = []"
proof (induction args)
  case Nil
  show ?case by simp
next
  case (Cons kv args)
  obtain k v where kv: "kv = (k, v)" by (cases kv)
  with Cons.prems have "emit_spec kv = []" by (simp add: emit_spec_falsy)
  with Cons show ?case by simp
qed

text \<open>
  C5. The command is the executable and the target path followed by what each key of the
  bag contributes, key by key: \<open>--key\<close> alone for a true boolean, \<open>--key value\<close> for a
  string that is not empty, nothing for a false boolean or the empty string. A bag whose
  values are all empty or false gives the executable and the target path only, and the
  bag tmdb = 123, freeleech = true, tag = empty gives the flags --tmdb 123 --freeleech.
\<close>

theorem build_cmd_per_key:
  "build_cmd ua_path file_path args = [ua_path, file_path] @ concat (map emit_spec args)
   \<and> emit_spec (key, BoolV True) = [''--'' @ key]
   \<and> emit_spec (key, BoolV False) = []
   \<and> emit_spec (key, StrV []) = []
   \<and> (s \<noteq> [] \<longrightarrow> emit_spec (key, StrV s) = [''--'' @ key, s])
   \<and> ((\<forall>kv \<in> set args. \<not> truthy (snd kv))
        \<longrightarrow> build_cmd ua_path file_path args = [ua_path, file_path])
   \<and> flags_of (build_cmd ua_path file_path
         [(''tmdb'', StrV ''123''), (''freeleech'', BoolV True), (''tag'', StrV [])])
       = [''--tmdb'', ''123'', ''--freeleech'']"
proof -
  have cmd: "build_cmd ua_path file_path bag = [ua_path, file_path] @ concat (map emit_spec bag)"
    for bag
    by (simp add: build_cmd_def fold_add_arg)
  have none: "(\<forall>kv \<in> set args. \<not> truthy (snd kv))
                \<longrightarrow> build_cmd ua_path file_path args = [ua_path, file_path]"
    by (simp add: cmd all_falsy_no_flags)
  have scenario: "flags_of (build_cmd ua_path file_path
         [(''tmdb'', StrV ''123''), (''freeleech'', BoolV True), (''tag'', StrV [])])
       = [''--tmdb'', ''123'', ''--freeleech'']"
    by (simp add: cmd flags_of_def)
  from cmd none scenario show ?thesis by simp
qed

theorem build_cmd_per_key_witness:
  "build_cmd ''upload-assistant'' ''/data/f.mkv'' [(''imdb'', StrV []), (''daily'', BoolV False)]
     = [''upload-assistant'', ''/data/f.mkv'']
   \<and> emit_spec (''tmdb'', StrV ''123'') = [''--tmdb'', ''123'']"
  using build_cmd_per_key [of "''upload-assistant''" "''/data/f.mkv''"
      "[(''imdb'', StrV []), (''daily'', BoolV False)]" "''tmdb''" "''123''"]
  by simp

subsection \<open>The order of the flags\<close>

lemma dict_set_fresh: "key \<notin> set (map fst d) \<Longrightarrow> dict_set d key v = d @ [(key, v)]"
  by (induction d) auto

lemma keep_keys: "set (map fst (keep kv)) \<subseteq> {fst kv}"
  by (cases kv rule: keep.cases) auto

lemma keeps_keys: "set (map fst (concat (map keep vars))) \<subseteq> set (map fst vars)"
proof (induction vars)
  case Nil
  show ?case by simp
next
  case (Cons kv vars)
  have "set (map fst (concat (map keep (kv # vars)))) =
        set (map fst (keep kv)) \<union> set (map fst (concat (map keep vars)))" by simp
  also have "\<dots> \<subseteq> {fst kv} \<union> set (map fst vars)"
    using keep_keys [of kv] Cons.IH by blast
  finally show ?case by simp
qed

lemma launch_step_keep:
  "fst kv \<notin> set (map fst acc) \<Longrightarrow> launch_step kv acc = acc @ keep kv"
  by (cases kv rule: keep.cases) (simp_all add: launch_step_def dict_set_fresh)

lemma fold_launch_step:
  "distinct (map fst vars) \<Longrightarrow> set (map fst acc) \<inter> set (map fst vars) = {} \<Longrightarrow>
   fold launch_step vars acc = acc @ concat (map keep vars)"
proof (induction vars arbitrary: acc)
  case Nil
  show ?case by simp
next
  case (Cons kv vars)
  have fresh: "fst kv \<notin> set (map fst acc)" using Cons.prems(2) by simp
  have step: "launch_step kv acc = acc @ keep kv" by (rule launch_step_keep [OF fresh])
  have d: "distinct (map fst vars)" and nk: "fst kv \<notin> set (map fst vars)"
    using Cons.prems(1) by simp_all
  have a: "set (map fst acc) \<inter> set (map fst vars) = {}" using Cons.prems(2) by simp
  have "set (map fst (acc @ keep kv)) = set (map fst acc) \<union> set (map fst (keep kv))" by simp
  with a nk keep_keys [of kv]
  have "set (map fst (acc @ keep kv)) \<inter> set (map fst vars) = {}" by blast
  from Cons.IH [OF d this] step show ?case by simp
qed

lemma arg_vars_keys: "map fst (arg_vars texts checks) = dialog_keys"
  by (simp add: arg_vars_def dialog_keys_def comp_def)

lemma dialog_keys_distinct: "distinct dialog_keys"
  by (simp add: dialog_keys_def ua_args_def boolean_args_def)

lemma dialog_launch_keep:
  "dialog_launch (arg_vars texts checks) = concat (map keep (arg_vars texts checks))"
  unfolding dialog_launch_def
  using fold_launch_step [of "arg_vars texts checks" "[]"]
  by (simp add: arg_vars_keys dialog_keys_distinct)

lemma keep_flags_at:
  assumes "fst kv \<notin> set (map fst pre)" "fst kv \<notin> set (map fst post)"
  shows "flags_at (pre @ keep kv @ post) (fst kv) = concat (map emit_spec (keep kv))"
proof -
  have n1: "map_of pre (fst kv) = None" and n2: "map_of post (fst kv) = None"
    using assms by (simp_all add: map_of_eq_None_iff)
  show ?thesis
  proof (cases "keep kv")
    case Nil
    with n1 n2 show ?thesis by (simp add: flags_at_def map_add_def)
  next
    case (Cons a as)
    then have "keep kv = [(fst kv, snd a)]"
      by (cases kv rule: keep.cases) (auto split: if_splits)
    with n1 n2 show ?thesis by (simp add: flags_at_def map_add_def)
  qed
qed

lemma flags_in_key_order:
  "distinct (map fst vars) \<Longrightarrow> set (map fst pre) \<inter> set (map fst vars) = {} \<Longrightarrow>
   concat (map emit_spec (concat (map keep vars))) =
   concat (map (flags_at (pre @ concat (map keep vars))) (map fst vars))"
proof (induction vars arbitrary: pre)
  case Nil
  show ?case by simp
next
  case (Cons kv vars)
  have d: "distinct (map fst vars)" and nk: "fst kv \<notin> set (map fst vars)"
    using Cons.prems(1) by simp_all
  have f1: "fst kv \<notin> set (map fst pre)" using Cons.prems(2) by simp
  have f2: "fst kv \<notin> set (map fst (concat (map keep vars)))"
    using nk keeps_keys [of vars] by blast
  have a: "set (map fst pre) \<inter> set (map fst vars) = {}" using Cons.prems(2) by simp
  have "set (map fst (pre @ keep kv)) = set (map fst pre) \<union> set (map fst (keep kv))" by simp
  with a nk keep_keys [of kv]
  have "set (map fst (pre @ keep kv)) \<inter> set (map fst vars) = {}" by blast
  from Cons.IH [OF d this] keep_flags_at [OF f1 f2]
  show ?case by simp
qed

lemma dialog_cmd:
  "build_cmd ua_path file_path (dialog_launch (arg_vars texts checks)) =
     [ua_path, file_path] @
     concat (map (flags_at (dialog_launch (arg_vars texts checks))) dialog_keys)"
  using flags_in_key_order [of "arg_vars texts checks" "[]"]
  by (simp add: build_cmd_def fold_add_arg dialog_launch_keep arg_vars_keys dialog_keys_distinct)

lemma flags_at_cong: "map_of bag = map_of bag' \<Longrightarrow> flags_at bag = flags_at bag'"
  by (rule ext) (simp add: flags_at_def)

text \<open>
  C4, as the code has it. Command building follows the insertion order of the bag it is
  given; it has no key list of its own. The bags that reach it are built by the
  arguments dialog, which inserts its keys in one fixed order (the twelve text keys, then
  the five boolean keys), so the flags of a dialog-built bag follow that order, and two
  dialog-built bags that hold the same key-to-value mapping give the same command.
\<close>

theorem dialog_flags_declared_order:
  "build_cmd ua_path file_path (dialog_launch (arg_vars texts checks)) =
     [ua_path, file_path] @
     concat (map (flags_at (dialog_launch (arg_vars texts checks))) dialog_keys)
   \<and> (map_of (dialog_launch (arg_vars texts checks)) =
        map_of (dialog_launch (arg_vars texts' checks'))
      \<longrightarrow> build_cmd ua_path file_path (dialog_launch (arg_vars texts checks)) =
          build_cmd ua_path file_path (dialog_launch (arg_vars texts' checks')))"
proof (intro conjI impI)
  show "build_cmd ua_path file_path (dialog_launch (arg_vars texts checks)) =
     [ua_path, file_path] @
     concat (map (flags_at (dialog_launch (arg_vars texts checks))) dialog_keys)"
    by (rule dialog_cmd)
next
  assume "map_of (dialog_launch (arg_vars texts checks)) =
          map_of (dialog_launch (arg_vars texts' checks'))"
  then have "flags_at (dialog_launch (arg_vars texts checks)) =
             flags_at (dialog_launch (arg_vars texts' checks'))"
    by (rule flags_at_cong)
  then show "build_cmd ua_path file_path (dialog_launch (arg_vars texts checks)) =
             build_cmd ua_path file_path (dialog_launch (arg_vars texts' checks'))"
    by (simp add: dialog_cmd)
qed

lemma strip_Nil: "strip [] = []"
  by (simp add: strip_def)

lemma example_dialog_bag:
  assumes "strip t = ''123''"
  shows "dialog_launch (arg_vars (\<lambda>k. if k = ''tmdb'' then t else []) (\<lambda>k. k = ''freeleech'')) =
     [(''tmdb'', StrV ''123''), (''freeleech'', BoolV True), (''daily'', BoolV False),
      (''no_dupe'', BoolV False), (''skip_imghost'', BoolV False),
      (''personalrelease'', BoolV False)]"
  unfolding dialog_launch_keep
  using assms by (simp add: arg_vars_def ua_args_def boolean_args_def strip_Nil)

lemma strip_examples: "strip '' 123'' = ''123''" "strip ''123 '' = ''123''"
  by (simp_all add: strip_def is_space_def)

theorem dialog_flags_declared_order_witness:
  "map_of (dialog_launch (arg_vars (\<lambda>k. if k = ''tmdb'' then '' 123'' else [])
                                   (\<lambda>k. k = ''freeleech''))) =
   map_of (dialog_launch (arg_vars (\<lambda>k. if k = ''tmdb'' then ''123 '' else [])
                                   (\<lambda>k. k = ''freeleech'')))
   \<and> build_cmd ''ua'' ''/f'' (dialog_launch (arg_vars (\<lambda>k. if k = ''tmdb'' then '' 123'' else [])
                                                      (\<lambda>k. k = ''freeleech''))) =
     build_cmd ''ua'' ''/f'' (dialog_launch (arg_vars (\<lambda>k. if k = ''tmdb'' then ''123 '' else [])
                                                      (\<lambda>k. k = ''freeleech'')))"
proof -
  have h: "map_of (dialog_launch (arg_vars (\<lambda>k. if k = ''tmdb'' then '' 123'' else [])
                                   (\<lambda>k. k = ''freeleech''))) =
           map_of (dialog_launch (arg_vars (\<lambda>k. if k = ''tmdb'' then ''123 '' else [])
                                   (\<lambda>k. k = ''freeleech'')))"
    by (simp only: example_dialog_bag [OF strip_examples(1)]
                   example_dialog_bag [OF strip_examples(2)])
  from dialog_flags_declared_order [THEN conjunct2, rule_format, OF h] h
  show ?thesis by (rule_tac conjI)
qed

theorem insertion_order_counterexample:
  "map_of [(''tmdb'', StrV ''1''), (''tag'', StrV ''x'')] =
   map_of [(''tag'', StrV ''x''), (''tmdb'', StrV ''1'')]
   \<and> flags_of (build_cmd ''ua'' ''/f'' [(''tmdb'', StrV ''1''), (''tag'', StrV ''x'')]) \<noteq>
     flags_of (build_cmd ''ua'' ''/f'' [(''tag'', StrV ''x''), (''tmdb'', StrV ''1'')])"
proof
  show "map_of [(''tmdb'', StrV ''1''), (''tag'', StrV ''x'')] =
        map_of [(''tag'', StrV ''x''), (''tmdb'', StrV ''1'')]"
    by (rule ext) simp
  show "flags_of (build_cmd ''ua'' ''/f'' [(''tmdb'', StrV ''1''), (''tag'', StrV ''x'')]) \<noteq>
        flags_of (build_cmd ''ua'' ''/f'' [(''tag'', StrV ''x''), (''tmdb'', StrV ''1'')])"
    by (simp add: build_cmd_def add_arg_def flags_of_def)
qed

section \<open>The listing: properties\<close>

lemma fold_add_missing:
  "fold add_missing ms st =
     st\<lparr>listbox := listbox st @ map (\<lambda>m. ''[MISSING] '' @ m) ms,
        current_files := current_files st @ ms\<rparr>"
  by (induction ms arbitrary: st) (simp_all add: add_missing_def)

lemma fold_add_file:
  "fold (add_file d) files st =
     st\<lparr>listbox := listbox st @ files,
        current_files := current_files st @ map (join d) files\<rparr>"
  by (induction files arbitrary: st) (simp_all add: add_file_def)

lemma scan_lines_filter:
  "scan_lines lines acc = acc @ map strip (filter missing_line lines)"
  unfolding scan_lines_def
  by (induction lines arbitrary: acc) simp_all

lemma scan_log_lines:
  "scan_log fs d f acc = acc @ map strip (filter missing_line (log_lines fs d f))"
  by (simp add: scan_log_def log_lines_def scan_lines_filter split: sum.splits)

lemma fold_scan_log:
  "fold (scan_log fs d) files acc =
     acc @ map strip (concat (map (\<lambda>f. filter missing_line (log_lines fs d f)) files))"
  by (induction files arbitrary: acc) (simp_all add: scan_log_lines)

lemma startswith_iff: "startswith s p \<longleftrightarrow> (\<exists>r. s = p @ r)"
  by (induction s p rule: startswith.induct) auto

lemma contains_iff: "contains needle hay \<longleftrightarrow> (\<exists>p s. hay = p @ needle @ s)"
proof (induction hay)
  case Nil
  show ?case by auto
next
  case (Cons c cs)
  show ?case
  proof
    assume "contains needle (c # cs)"
    then consider "startswith (c # cs) needle" | "contains needle cs" by auto
    then show "\<exists>p s. c # cs = p @ needle @ s"
    proof cases
      case 1
      then obtain r where "c # cs = needle @ r" by (auto simp: startswith_iff)
      then have "c # cs = [] @ needle @ r" by simp
      then show ?thesis by blast
    next
      case 2
      with Cons.IH obtain p s where "cs = p @ needle @ s" by blast
      then have "c # cs = (c # p) @ needle @ s" by simp
      then show ?thesis by blast
    qed
  next
    assume "\<exists>p s. c # cs = p @ needle @ s"
    then obtain p s where eq: "c # cs = p @ needle @ s" by blast
    show "contains needle (c # cs)"
    proof (cases p)
      case Nil
      with eq have "startswith (c # cs) needle" by (auto simp: startswith_iff)
      then show ?thesis by simp
    next
      case (Cons a p')
      with eq have "cs = p' @ needle @ s" by simp
      with Cons.IH have "contains needle cs" by blast
      then show ?thesis by simp
    qed
  qed
qed

lemma load_missing_torrents_eq:
  "load_missing_torrents fs cfg st =
     (missing_events fs cfg,
      st\<lparr>listbox := listbox st @ map (\<lambda>m. ''[MISSING] '' @ m) (missing_files_of fs cfg),
         current_files := current_files st @ missing_files_of fs cfg\<rparr>)"
  unfolding missing_events_def
  by (auto simp add: load_missing_torrents_def missing_files_of_def Let_def fold_add_missing
      fold_scan_log kept_lines_def path_exists_def listdir_def
      split: sum.splits option.splits fsnode.splits)

lemma update_files_absent:
  "\<not> path_exists fs d \<Longrightarrow>
   update_files fs cfg d b st =
     (None, [], st\<lparr>current_directory := Some d, listbox := [], curselection := [],
                    current_files := []\<rparr>)"
  by (simp add: update_files_def)

lemma update_files_missing:
  "path_exists fs d \<Longrightarrow>
   update_files fs cfg d True st =
     (None, missing_events fs cfg,
      st\<lparr>current_directory := Some d,
         listbox := map (\<lambda>m. ''[MISSING] '' @ m) (missing_files_of fs cfg),
         curselection := [], current_files := missing_files_of fs cfg\<rparr>)"
  by (simp add: update_files_def load_missing_torrents_eq)

lemma update_files_plain:
  "path_exists fs d \<Longrightarrow> listdir fs d = Inr names \<Longrightarrow>
   update_files fs cfg d False st =
     (None, [],
      st\<lparr>current_directory := Some d,
         listbox := sort (filter (\<lambda>item. isfile fs (join d item) \<or> isdir fs (join d item)) names),
         curselection := [],
         current_files := map (join d)
           (sort (filter (\<lambda>item. isfile fs (join d item) \<or> isdir fs (join d item)) names))\<rparr>)"
  by (simp add: update_files_def fold_add_file Let_def)

lemma update_files_error:
  "path_exists fs d \<Longrightarrow> listdir fs d = Inl e \<Longrightarrow>
   panel_of (update_files fs cfg d False st) =
      st\<lparr>current_directory := Some d, listbox := [], curselection := [], current_files := []\<rparr>"
  by (simp add: update_files_def panel_of_def Let_def)

lemma py_index_nat: "i < length xs \<Longrightarrow> py_index xs (int i) = Inr (xs ! i)"
  by (simp add: py_index_def)

lemma get_selected_file_nat:
  "i < length (current_files st) \<Longrightarrow>
   get_selected_file (st\<lparr>curselection := [int i]\<rparr>) = Inr (Some (current_files st ! i))"
  by (simp add: get_selected_file_def py_index_nat)

lemma update_files_aligned:
  "(show_missing \<longrightarrow> listbox (panel_of (update_files fs cfg directory show_missing st)) =
       map (\<lambda>m. ''[MISSING] '' @ m) (current_files (panel_of (update_files fs cfg directory show_missing st))))
   \<and> (\<not> show_missing \<longrightarrow> current_files (panel_of (update_files fs cfg directory show_missing st)) =
       map (join directory) (listbox (panel_of (update_files fs cfg directory show_missing st))))"
proof (cases "path_exists fs directory")
  case False
  then show ?thesis by (simp add: update_files_absent panel_of_def)
next
  case True
  show ?thesis
  proof (cases show_missing)
    case True
    with \<open>path_exists fs directory\<close> show ?thesis
      by (simp add: update_files_missing panel_of_def)
  next
    case False
    show ?thesis
    proof (cases "listdir fs directory")
      case (Inl e)
      with False \<open>path_exists fs directory\<close> show ?thesis
        by (simp add: update_files_error)
    next
      case (Inr names)
      with False \<open>path_exists fs directory\<close> show ?thesis
        by (simp add: update_files_plain panel_of_def)
    qed
  qed
qed


lemma missing_files_of_dir:
  "listdir fs (config_get cfg ''PATHS'' ''logs_dir'') = Inr names \<Longrightarrow>
   missing_files_of fs cfg = map strip (kept_lines fs (config_get cfg ''PATHS'' ''logs_dir'') names)"
  by (simp add: missing_files_of_def)

lemma load_missing_events_dir:
  "listdir fs (config_get cfg ''PATHS'' ''logs_dir'') = Inr names \<Longrightarrow>
   missing_events fs cfg = []"
  by (auto simp add: missing_events_def load_missing_torrents_def listdir_def path_exists_def
      Let_def split: option.splits)

subsection \<open>The scenarios evaluated\<close>

lemma example_logs_dir:
  "listdir example_fs (config_get example_cfg ''PATHS'' ''logs_dir'') = Inr [''a.log'']"
  by (simp add: example_fs_def example_cfg_def config_get_def listdir_def)

lemma example_logs_dir_name: "config_get example_cfg ''PATHS'' ''logs_dir'' = ''/logs''"
  by (simp add: example_cfg_def config_get_def)

lemma example_paths_exist:
  "path_exists example_fs ''/data/torrents''" "path_exists example_fs ''/logs''"
  "\<not> path_exists example_fs ''/gone''"
  by (simp_all add: path_exists_def example_fs_def)

lemma example_lower:
  "lower ''ok'' = ''ok''"
  "lower ''Missing Torrent: foo.mkv'' = ''missing torrent: foo.mkv''"
  "lower ''torrentmissingbar'' = ''torrentmissingbar''"
  by code_simp+

lemma example_missing_lines:
  "\<not> missing_line ''ok''"
  "missing_line ''Missing Torrent: foo.mkv''"
  "missing_line ''torrentmissingbar''"
  by (simp_all add: missing_line_def example_lower)

lemma example_kept_lines:
  "kept_lines example_fs ''/logs'' [''a.log''] = [''Missing Torrent: foo.mkv'', ''torrentmissingbar'']"
  by (simp add: kept_lines_def log_lines_def example_fs_def read_file_def join_def endswith_def
      example_missing_lines)

lemma example_strips:
  "strip ''Missing Torrent: foo.mkv'' = ''Missing Torrent: foo.mkv''"
  "strip ''torrentmissingbar'' = ''torrentmissingbar''"
  by (simp_all add: strip_def is_space_def)

lemma example_missing_files:
  "missing_files_of example_fs example_cfg = [''Missing Torrent: foo.mkv'', ''torrentmissingbar'']"
  by (simp add: missing_files_of_dir [OF example_logs_dir] example_logs_dir_name
      example_kept_lines example_strips)





subsection \<open>What trimming does\<close>






subsection \<open>The claims about the listing\<close>

lemma example_plain_listing:
  "update_files example_fs example_cfg ''/data/torrents'' False init_panel =
     (None, [],
      \<lparr>listbox = [''B'', ''C'', ''a'', ''f.txt''], curselection = [],
       current_files = [''/data/torrents/B'', ''/data/torrents/C'', ''/data/torrents/a'',
                        ''/data/torrents/f.txt''],
       current_directory = Some ''/data/torrents''\<rparr>)"
  by (simp add: update_files_def example_fs_def init_panel_def path_exists_def listdir_def
      isfile_def isdir_def join_def endswith_def add_file_def)

lemma example_missing_listing:
  "update_files example_fs example_cfg ''/data/torrents'' True init_panel =
     (None, [],
      \<lparr>listbox = [''[MISSING] Missing Torrent: foo.mkv'', ''[MISSING] torrentmissingbar''],
       curselection = [],
       current_files = [''Missing Torrent: foo.mkv'', ''torrentmissingbar''],
       current_directory = Some ''/data/torrents''\<rparr>)"
  by (simp add: update_files_missing [OF example_paths_exist(1)] example_missing_files
      load_missing_events_dir [OF example_logs_dir] init_panel_def)

text \<open>
  C10. After a refresh, in either branch of the filter and also when an exception leaves
  \<^verbatim>\<open>update_files\<close>, the list box and \<^verbatim>\<open>current_files\<close> have the same length
  and agree position by position: under the filter a label is the fixed prefix before the
  stored entry, otherwise the stored path is the directory joined with the label. So the
  path resolved for a position in range is the one stored for the line shown there.
\<close>

theorem refresh_keeps_lists_aligned:
  assumes "update_files fs cfg directory show_missing st = (err, evs, st')"
  shows "length (listbox st') = length (current_files st')
    \<and> (show_missing \<longrightarrow> listbox st' = map (\<lambda>m. ''[MISSING] '' @ m) (current_files st'))
    \<and> (\<not> show_missing \<longrightarrow> current_files st' = map (join directory) (listbox st'))
    \<and> (\<forall>i < length (listbox st').
          get_selected_file (st'\<lparr>curselection := [int i]\<rparr>) = Inr (Some (current_files st' ! i)))"
proof -
  have p: "panel_of (update_files fs cfg directory show_missing st) = st'"
    using assms by (simp add: panel_of_def)
  have al: "(show_missing \<longrightarrow> listbox st' = map (\<lambda>m. ''[MISSING] '' @ m) (current_files st'))
    \<and> (\<not> show_missing \<longrightarrow> current_files st' = map (join directory) (listbox st'))"
    using update_files_aligned [of show_missing fs cfg directory st] by (simp only: p)
  have len: "length (listbox st') = length (current_files st')"
  proof (cases show_missing)
    case True
    with al have "listbox st' = map (\<lambda>m. ''[MISSING] '' @ m) (current_files st')" by simp
    then have "length (listbox st') = length (map (\<lambda>m. ''[MISSING] '' @ m) (current_files st'))"
      by (rule arg_cong)
    then show ?thesis by simp
  next
    case False
    with al have "current_files st' = map (join directory) (listbox st')" by simp
    then have "length (current_files st') = length (map (join directory) (listbox st'))"
      by (rule arg_cong)
    then show ?thesis by simp
  qed
  have sel: "\<forall>i < length (listbox st').
          get_selected_file (st'\<lparr>curselection := [int i]\<rparr>) = Inr (Some (current_files st' ! i))"
    using len by (simp add: get_selected_file_nat)
  from len al sel show ?thesis by blast
qed

theorem refresh_keeps_lists_aligned_witness:
  "update_files example_fs example_cfg ''/data/torrents'' False init_panel =
     (None, [],
      \<lparr>listbox = [''B'', ''C'', ''a'', ''f.txt''], curselection = [],
       current_files = [''/data/torrents/B'', ''/data/torrents/C'', ''/data/torrents/a'',
                        ''/data/torrents/f.txt''],
       current_directory = Some ''/data/torrents''\<rparr>)
   \<and> (2::nat) < length [''B'', ''C'', ''a'', ''f.txt'']
   \<and> get_selected_file
     (\<lparr>listbox = [''B'', ''C'', ''a'', ''f.txt''], curselection = [],
       current_files = [''/data/torrents/B'', ''/data/torrents/C'', ''/data/torrents/a'',
                        ''/data/torrents/f.txt''],
       current_directory = Some ''/data/torrents''\<rparr>\<lparr>curselection := [int 2]\<rparr>)
     = Inr (Some ''/data/torrents/a'')
   \<and> update_files example_fs example_cfg ''/data/torrents'' True init_panel =
     (None, [],
      \<lparr>listbox = [''[MISSING] Missing Torrent: foo.mkv'', ''[MISSING] torrentmissingbar''],
       curselection = [],
       current_files = [''Missing Torrent: foo.mkv'', ''torrentmissingbar''],
       current_directory = Some ''/data/torrents''\<rparr>)
   \<and> [''[MISSING] Missing Torrent: foo.mkv'', ''[MISSING] torrentmissingbar''] =
       map (\<lambda>m. ''[MISSING] '' @ m) [''Missing Torrent: foo.mkv'', ''torrentmissingbar'']"
  using refresh_keeps_lists_aligned [OF example_plain_listing, THEN conjunct2, THEN conjunct2,
      THEN conjunct2, rule_format, of 2]
    refresh_keeps_lists_aligned [OF example_missing_listing, THEN conjunct2, THEN conjunct1]
    example_plain_listing example_missing_listing
  by simp







text \<open>
  C1, as the code has it. \<^verbatim>\<open>update_files\<close> returns before it looks at the filter when
  the directory does not exist, so the listing is then empty. For directories that exist
  the listing under the filter is a function of the filesystem at the log location and
  of the configuration only: any two existing directories give the same entries and the
  same messages.
\<close>

theorem missing_listing_existing_directory:
  "(path_exists fs d1 \<and> path_exists fs d2 \<longrightarrow>
      entries (panel_of (update_files fs cfg d1 True st)) =
      entries (panel_of (update_files fs cfg d2 True st))
      \<and> events_of (update_files fs cfg d1 True st) = events_of (update_files fs cfg d2 True st))
   \<and> (path_exists fs d \<longrightarrow>
        current_files (panel_of (update_files fs cfg d True st)) = missing_files_of fs cfg
      \<and> listbox (panel_of (update_files fs cfg d True st)) =
          map (\<lambda>m. ''[MISSING] '' @ m) (missing_files_of fs cfg))
   \<and> (\<not> path_exists fs d \<longrightarrow> entries (panel_of (update_files fs cfg d True st)) = [])"
  by (simp add: update_files_missing update_files_absent panel_of_def events_of_def entries_def)

theorem missing_listing_existing_directory_witness:
  "path_exists example_fs ''/data/torrents'' \<and> path_exists example_fs ''/logs''
   \<and> entries (panel_of (update_files example_fs example_cfg ''/data/torrents'' True init_panel)) =
     entries (panel_of (update_files example_fs example_cfg ''/logs'' True init_panel))
   \<and> \<not> path_exists example_fs ''/gone''
   \<and> entries (panel_of (update_files example_fs example_cfg ''/gone'' True init_panel)) = []"
  using missing_listing_existing_directory [of example_fs "''/data/torrents''" "''/logs''"
      example_cfg init_panel "''/gone''"]
    example_paths_exist
  by simp

theorem missing_listing_counterexample:
  "entries (panel_of (update_files example_fs example_cfg ''/gone'' True init_panel)) \<noteq>
   entries (panel_of (update_files example_fs example_cfg ''/data/torrents'' True init_panel))"
  by (simp add: update_files_missing [OF example_paths_exist(1)]
      update_files_absent [OF example_paths_exist(3)] panel_of_def entries_def
      example_missing_files)

text \<open>
  C2. The index of a selection is a line number of the list box and so never negative.
  For every such index the result is the entry at the index when the index is below the
  length of \<^verbatim>\<open>current_files\<close>, and \<open>None\<close> when it is not; with no selection it is
  \<open>None\<close>.
\<close>

theorem get_selected_file_in_range:
  "(0 \<le> index \<longrightarrow>
      get_selected_file (st\<lparr>curselection := index # others\<rparr>) =
        Inr (if index < int (length (current_files st))
             then Some (current_files st ! nat index) else None))
   \<and> get_selected_file (st\<lparr>curselection := []\<rparr>) = Inr None"
  by (simp add: get_selected_file_def py_index_def)

theorem get_selected_file_in_range_witness:
  "(0::int) \<le> 1
   \<and> get_selected_file (init_panel\<lparr>listbox := [''a'', ''b''], current_files := [''/d/a'', ''/d/b''],
                                     curselection := [1]\<rparr>) = Inr (Some ''/d/b'')
   \<and> (0::int) \<le> 2
   \<and> get_selected_file (init_panel\<lparr>listbox := [''a'', ''b''], current_files := [''/d/a'', ''/d/b''],
                                     curselection := [2]\<rparr>) = Inr None"
  using get_selected_file_in_range [where index = 1 and others = "[]"
      and st = "init_panel\<lparr>listbox := [''a'', ''b''], current_files := [''/d/a'', ''/d/b'']\<rparr>"]
    get_selected_file_in_range [where index = 2 and others = "[]"
      and st = "init_panel\<lparr>listbox := [''a'', ''b''], current_files := [''/d/a'', ''/d/b'']\<rparr>"]
  by (simp add: init_panel_def)

section \<open>The directory tree: properties\<close>

lemma get_node_upd_node:
  "get_node t p = Some n \<Longrightarrow> get_node (upd_node p f t) p = Some (f n)"
proof (induction p arbitrary: t)
  case Nil
  then show ?case by simp
next
  case (Cons i p)
  obtain x v ks where t: "t = TNode x v ks" by (cases t)
  with Cons.prems have i: "i < length ks" and g: "get_node (ks ! i) p = Some n"
    by (simp_all split: if_splits)
  from Cons.IH [OF g] t i show ?case by simp
qed

lemma upd_node_append: "upd_node (p @ q) f t = upd_node p (upd_node q f) t"
proof (induction p arbitrary: t)
  case Nil
  show ?case by simp
next
  case (Cons i p)
  obtain x v ks where t: "t = TNode x v ks" by (cases t)
  with Cons.IH show ?case by simp
qed

lemma upd_node_cong:
  "get_node t p = Some n \<Longrightarrow> f n = g n \<Longrightarrow> upd_node p f t = upd_node p g t"
proof (induction p arbitrary: t)
  case Nil
  then show ?case by simp
next
  case (Cons i p)
  obtain x v ks where t: "t = TNode x v ks" by (cases t)
  with Cons.prems have i: "i < length ks" and gn: "get_node (ks ! i) p = Some n"
    by (simp_all split: if_splits)
  from Cons.IH [OF gn Cons.prems(2)] t i show ?case by simp
qed

lemma upd_node_twice:
  "get_node t p = Some n \<Longrightarrow> upd_node p f (upd_node p g t) = upd_node p (\<lambda>m. f (g m)) t"
proof (induction p arbitrary: t)
  case Nil
  then show ?case by simp
next
  case (Cons i p)
  obtain x v ks where t: "t = TNode x v ks" by (cases t)
  with Cons.prems have i: "i < length ks" and gn: "get_node (ks ! i) p = Some n"
    by (simp_all split: if_splits)
  from Cons.IH [OF gn] t i show ?case by simp
qed

lemma get_node_append:
  "get_node t p = Some n \<Longrightarrow> get_node t (p @ q) = get_node n q"
proof (induction p arbitrary: t)
  case Nil
  then show ?case by simp
next
  case (Cons i p)
  then show ?case by (simp split: if_splits)
qed

lemma isdir_probe: "isdir fs p \<Longrightarrow> probe fs p = Inr True \<or> probe fs p = Inr False"
  by (auto simp add: isdir_def probe_def has_subdirs_def listdir_def
      split: option.splits fsnode.splits)

lemma add_item_eq:
  assumes n: "get_node tree parent = Some n" and d: "isdir fs (snd it)"
  shows "add_item fs parent it tree = Inr (upd_node parent (add_children [new_node fs it]) tree)"
proof -
  obtain item item_path where it: "it = (item, item_path)" by (cases it)
  let ?c = "TNode item [item_path] []"
  let ?k = "length (children n)"
  let ?t1 = "upd_node parent (add_child ?c) tree"
  have ins: "tv_insert tree parent item [item_path] = Inr (parent @ [?k], ?t1)"
    using n by (simp add: tv_insert_def)
  have plain: "upd_node parent (add_child ?c) tree =
               upd_node parent (add_children [?c]) tree"
    by (rule upd_node_cong [OF n]) (simp add: add_child_def add_children_def)
  from isdir_probe [OF d] it
  consider (yes) "probe fs item_path = Inr True" | (no) "probe fs item_path = Inr False"
    by auto
  then show ?thesis
  proof cases
    case no
    with ins it plain show ?thesis by (simp add: add_item_def new_node_def)
  next
    case yes
    have n1: "get_node ?t1 parent = Some (add_child ?c n)"
      by (rule get_node_upd_node [OF n])
    have c: "get_node ?t1 (parent @ [?k]) = Some ?c"
      using get_node_append [OF n1, of "[?k]"] by (simp add: add_child_def)
    have ins2: "tv_insert ?t1 (parent @ [?k]) ''Loading...'' [] =
        Inr (parent @ [?k] @ [0], upd_node (parent @ [?k]) (add_child placeholder) ?t1)"
      using c by (simp add: tv_insert_def placeholder_def)
    have "upd_node (parent @ [?k]) (add_child placeholder) ?t1 =
          upd_node parent (\<lambda>m. upd_node [?k] (add_child placeholder) (add_child ?c m)) tree"
      by (simp only: upd_node_append upd_node_twice [OF n])
    also have "\<dots> = upd_node parent (add_children [new_node fs it]) tree"
      by (rule upd_node_cong [OF n])
         (cases n, simp add: add_child_def add_children_def new_node_def it yes nth_append)
    finally show ?thesis using ins ins2 it yes by (simp add: add_item_def)
  qed
qed

lemma add_children_twice:
  "add_children cs (add_children bs n) = add_children (bs @ cs) n"
  by (simp add: add_children_def)

lemma add_items_eq:
  "get_node tree parent = Some n \<Longrightarrow> \<forall>it \<in> set items. isdir fs (snd it) \<Longrightarrow>
   add_items fs parent items tree =
     Inr (upd_node parent (add_children (map (new_node fs) items)) tree)"
proof (induction items arbitrary: tree n)
  case Nil
  have "upd_node parent (add_children []) tree = upd_node parent (\<lambda>m. m) tree"
    by (rule upd_node_cong [OF Nil.prems(1)]) (simp add: add_children_def)
  also have "\<dots> = tree"
    using Nil.prems(1)
  proof (induction parent arbitrary: tree)
    case Nil
    show ?case by simp
  next
    case (Cons i p)
    obtain x v ks where t: "tree = TNode x v ks" by (cases tree)
    with Cons.prems have i: "i < length ks" and gn: "get_node (ks ! i) p = Some n"
      by (simp_all split: if_splits)
    from Cons.IH [OF gn] t i show ?case by simp
  qed
  finally show ?case by simp
next
  case (Cons it items)
  let ?t1 = "upd_node parent (add_children [new_node fs it]) tree"
  have d: "isdir fs (snd it)" and ds: "\<forall>it \<in> set items. isdir fs (snd it)"
    using Cons.prems(2) by simp_all
  have one: "add_item fs parent it tree = Inr ?t1"
    by (rule add_item_eq [OF Cons.prems(1) d])
  have n1: "get_node ?t1 parent = Some (add_children [new_node fs it] n)"
    by (rule get_node_upd_node [OF Cons.prems(1)])
  have "add_items fs parent items ?t1 =
        Inr (upd_node parent (add_children (map (new_node fs) items)) ?t1)"
    by (rule Cons.IH [OF n1 ds])
  also have "upd_node parent (add_children (map (new_node fs) items)) ?t1 =
        upd_node parent (\<lambda>m. add_children (map (new_node fs) items)
                                 (add_children [new_node fs it] m)) tree"
    by (rule upd_node_twice [OF Cons.prems(1)])
  finally show ?case using one by (simp add: add_children_twice)
qed

lemma dir_items_isdir: "\<forall>it \<in> set (dir_items fs path names). isdir fs (snd it)"
  by (auto simp add: dir_items_def)

lemma populate_tree_eq:
  "get_node tree parent = Some n \<Longrightarrow> listdir fs path = Inr names \<Longrightarrow>
   populate_tree fs parent path tree =
     Inr (upd_node parent (add_children (map (new_node fs) (dir_items fs path names))) tree)"
  by (simp add: populate_tree_def add_items_eq dir_items_isdir)

lemma populate_tree_denied:
  "listdir fs path = Inl PermissionError \<Longrightarrow> populate_tree fs parent path tree = Inr tree"
  by (simp add: populate_tree_def)

lemma insort_pair:
  "insort (x, f x) (map (\<lambda>y. (y, f y)) ys) = map (\<lambda>y. (y, f y)) (insort x ys)"
  by (induction ys) auto

lemma sort_pair: "sort (map (\<lambda>y. (y, f y)) xs) = map (\<lambda>y. (y, f y)) (sort xs)"
  by (induction xs) (simp_all add: insort_pair)

lemma sort_Nil_iff: "(sort xs = []) = (xs = [])"
proof -
  have "length (sort xs) = length xs" by simp
  then show ?thesis by (metis length_0_conv)
qed

lemma dir_items_sorted:
  "dir_items fs path names =
     map (\<lambda>item. (item, join path item)) (sort (filter (\<lambda>item. isdir fs (join path item)) names))"
  by (simp add: dir_items_def sort_pair)

lemma new_node_text: "item_text (new_node fs it) = fst it"
  and new_node_values: "item_values (new_node fs it) = [snd it]"
  by (simp_all add: new_node_def)

lemma add_children_Nil: "add_children [] n = n"
  by (cases n) (simp add: add_children_def)

lemma isdir_listdir:
  "isdir fs D \<Longrightarrow> listdir fs D = Inl PermissionError \<or> (\<exists>names. listdir fs D = Inr names)"
  by (auto simp add: isdir_def listdir_def split: option.splits fsnode.splits)

lemma example_tree:
  "populate_tree example_fs [] ''/data/torrents'' empty_tree =
     Inr (TNode [] []
            [TNode ''B'' [''/data/torrents/B''] [],
             TNode ''C'' [''/data/torrents/C''] [TNode ''Loading...'' [] []],
             TNode ''a'' [''/data/torrents/a''] []])"
  by (simp add: populate_tree_def example_fs_def listdir_def dir_items_def isdir_def join_def
      endswith_def add_item_def tv_insert_def probe_def has_subdirs_def empty_tree_def
      add_child_def)

text \<open>
  C6. For a directory \<open>D\<close> and an item of the tree, \<^verbatim>\<open>populate_tree\<close> returns and
  appends to the children of the item one item per subdirectory of \<open>D\<close> and nothing
  else; their names are the names of the subdirectories sorted in the order of the
  character codes, in which a capital letter comes before a small one, whatever the order
  the operating system lists them in; the result is a function of the filesystem. When
  listing \<open>D\<close> is not permitted nothing is added and no exception leaves the function.
  For the subdirectories B, a and C the items are B, C, a.
\<close>

theorem populate_tree_sorted_subdirs:
  assumes "isdir fs D" and "get_node tree parent = Some n"
  shows "(\<exists>tree' new. populate_tree fs parent D tree = Inr tree'
        \<and> get_node tree' parent = Some (add_children new n)
        \<and> map item_text new =
            (case listdir fs D of
               Inl e \<Rightarrow> []
             | Inr names \<Rightarrow> sort (filter (\<lambda>x. isdir fs (join D x)) names))
        \<and> sorted (map item_text new)
        \<and> (\<forall>c \<in> set new. item_values c = [join D (item_text c)]
                            \<and> isdir fs (join D (item_text c))))
    \<and> (listdir fs D = Inl PermissionError \<longrightarrow> populate_tree fs parent D tree = Inr tree)
    \<and> populate_tree example_fs [] ''/data/torrents'' empty_tree =
         Inr (TNode [] []
                [TNode ''B'' [''/data/torrents/B''] [],
                 TNode ''C'' [''/data/torrents/C''] [TNode ''Loading...'' [] []],
                 TNode ''a'' [''/data/torrents/a''] []])"
proof -
  have denied: "listdir fs D = Inl PermissionError \<longrightarrow> populate_tree fs parent D tree = Inr tree"
    by (simp add: populate_tree_denied)
  have main: "\<exists>tree' new. populate_tree fs parent D tree = Inr tree'
        \<and> get_node tree' parent = Some (add_children new n)
        \<and> map item_text new =
            (case listdir fs D of
               Inl e \<Rightarrow> []
             | Inr names \<Rightarrow> sort (filter (\<lambda>x. isdir fs (join D x)) names))
        \<and> sorted (map item_text new)
        \<and> (\<forall>c \<in> set new. item_values c = [join D (item_text c)]
                            \<and> isdir fs (join D (item_text c)))"
  proof -
    from isdir_listdir [OF assms(1)]
    consider (denied) "listdir fs D = Inl PermissionError"
      | (listed) names where "listdir fs D = Inr names" by blast
    then show ?thesis
    proof cases
      case denied
      have "populate_tree fs parent D tree = Inr tree
        \<and> get_node tree parent = Some (add_children [] n)
        \<and> map item_text [] =
            (case listdir fs D of
               Inl e \<Rightarrow> []
             | Inr names \<Rightarrow> sort (filter (\<lambda>x. isdir fs (join D x)) names))
        \<and> sorted (map item_text [])
        \<and> (\<forall>c \<in> set []. item_values c = [join D (item_text c)]
                            \<and> isdir fs (join D (item_text c)))"
        using denied assms(2) by (simp add: populate_tree_denied add_children_Nil)
      then show ?thesis by blast
    next
      case listed
      let ?names = "sort (filter (\<lambda>x. isdir fs (join D x)) names)"
      let ?new = "map (new_node fs) (dir_items fs D names)"
      let ?tree' = "upd_node parent (add_children ?new) tree"
      have p: "populate_tree fs parent D tree = Inr ?tree'"
        by (rule populate_tree_eq [OF assms(2) listed])
      have g: "get_node ?tree' parent = Some (add_children ?new n)"
        by (rule get_node_upd_node [OF assms(2)])
      have t: "map item_text ?new = ?names"
        by (simp add: dir_items_sorted comp_def new_node_text)
      have s: "sorted (map item_text ?new)"
        by (simp only: t sorted_sort)
      have v: "\<forall>c \<in> set ?new. item_values c = [join D (item_text c)]
                            \<and> isdir fs (join D (item_text c))"
        by (auto simp add: dir_items_sorted new_node_text new_node_values)
      from p g t s v listed show ?thesis
        by (intro exI [of _ ?tree'] exI [of _ ?new]) simp
    qed
  qed
  from main denied example_tree show ?thesis by blast
qed

lemma example_isdir: "isdir example_fs ''/data/torrents''"
  by (simp add: isdir_def example_fs_def)

lemma example_denied:
  "isdir example_fs ''/data/torrents/a''"
  "listdir example_fs ''/data/torrents/a'' = Inl PermissionError"
  by (simp_all add: isdir_def listdir_def example_fs_def)

theorem populate_tree_sorted_subdirs_witness:
  "isdir example_fs ''/data/torrents'' \<and> get_node empty_tree [] = Some empty_tree
   \<and> populate_tree example_fs [] ''/data/torrents'' empty_tree =
         Inr (TNode [] []
                [TNode ''B'' [''/data/torrents/B''] [],
                 TNode ''C'' [''/data/torrents/C''] [TNode ''Loading...'' [] []],
                 TNode ''a'' [''/data/torrents/a''] []])
   \<and> isdir example_fs ''/data/torrents/a''
   \<and> listdir example_fs ''/data/torrents/a'' = Inl PermissionError
   \<and> populate_tree example_fs [] ''/data/torrents/a'' empty_tree = Inr empty_tree"
proof -
  have h: "get_node empty_tree [] = Some empty_tree" by simp
  from populate_tree_sorted_subdirs [OF example_isdir h]
    populate_tree_sorted_subdirs [OF example_denied(1) h] example_denied example_isdir h
  show ?thesis by blast
qed

lemma children_add_children: "children (add_children cs n) = children n @ cs"
  by (simp add: add_children_def)

text \<open>
  C7. The test for the expand marker of a directory gives false exactly when listing
  the directory's children in a fresh tree adds no item, and true exactly when it adds
  one or more; the two agree when listing is not permitted (false, no item) and raise the
  same exception for a path that is no directory.
\<close>

theorem probe_agrees_with_listing:
  "probe fs p =
     (case populate_tree fs [] p empty_tree of
        Inl e \<Rightarrow> Inl e
      | Inr tree \<Rightarrow> Inr (children tree \<noteq> []))"
proof (cases "listdir fs p")
  case (Inl e)
  then show ?thesis
    by (simp add: probe_def has_subdirs_def populate_tree_def empty_tree_def)
next
  case (Inr names)
  have g: "get_node empty_tree [] = Some empty_tree" by simp
  have "populate_tree fs [] p empty_tree =
          Inr (add_children (map (new_node fs) (dir_items fs p names)) empty_tree)"
    using populate_tree_eq [OF g Inr] by simp
  moreover have "(dir_items fs p names \<noteq> []) = list_ex (\<lambda>x. isdir fs (join p x)) names"
    by (simp add: dir_items_sorted list_ex_iff sort_Nil_iff filter_empty_conv)
  ultimately show ?thesis using Inr
    by (simp add: probe_def has_subdirs_def children_add_children empty_tree_def)
qed

theorem probe_agrees_with_listing_witness:
  "probe example_fs ''/data/torrents/C'' = Inr True
   \<and> probe example_fs ''/data/torrents/B'' = Inr False
   \<and> probe example_fs ''/data/torrents/a'' = Inr False
   \<and> populate_tree example_fs [] ''/data/torrents/a'' empty_tree = Inr empty_tree"
  using probe_agrees_with_listing [of example_fs "''/data/torrents/a''"]
  by (simp add: probe_def has_subdirs_def listdir_def example_fs_def isdir_def join_def
      endswith_def populate_tree_def)

section \<open>Expanding a node: properties\<close>

lemma sentinel_refresh:
  "refresh_directory_tree sentinel_fs ''/base'' =
     Inr (TNode [] [] [TNode ''d'' [''/base/d''] [TNode ''Loading...'' [] []]])"
  by (simp add: refresh_directory_tree_def path_exists_def populate_tree_def sentinel_fs_def
      listdir_def dir_items_def isdir_def join_def endswith_def add_item_def tv_insert_def
      probe_def has_subdirs_def empty_tree_def add_child_def)

lemma sentinel_step1:
  "on_dir_select sentinel_fs [[0]]
     (TNode [] [] [TNode ''d'' [''/base/d''] [TNode ''Loading...'' [] []]]) =
   Inr (Some ''/base/d'', sentinel_tree1)"
  by (simp add: on_dir_select_def tv_values_def tv_get_children_def tv_text_def tv_delete_def
      remove_child_def populate_tree_def sentinel_fs_def sentinel_tree1_def
      listdir_def dir_items_def isdir_def join_def endswith_def add_item_def tv_insert_def
      probe_def has_subdirs_def add_child_def)

lemma sentinel_step2:
  "on_dir_select sentinel_fs [[0, 0]] sentinel_tree1 =
   Inr (Some ''/base/d/Loading...'', sentinel_tree2)"
  by (simp add: on_dir_select_def tv_values_def tv_get_children_def tv_text_def tv_delete_def
      remove_child_def populate_tree_def sentinel_fs_def sentinel_tree1_def sentinel_tree2_def
      listdir_def dir_items_def isdir_def join_def endswith_def add_item_def tv_insert_def
      probe_def has_subdirs_def add_child_def)

lemma sentinel_step3:
  "on_dir_select sentinel_fs [[0]] sentinel_tree2 = Inr (Some ''/base/d'', sentinel_tree1)"
  by (simp add: on_dir_select_def tv_values_def tv_get_children_def tv_text_def tv_delete_def
      remove_child_def populate_tree_def sentinel_fs_def sentinel_tree1_def sentinel_tree2_def
      listdir_def dir_items_def isdir_def join_def endswith_def add_item_def tv_insert_def
      probe_def has_subdirs_def add_child_def)

text \<open>
  C8, at the input where the code departs from it. In \<open>sentinel_fs\<close> the only
  subdirectory of \<^verbatim>\<open>/base/d\<close> is named \<open>Loading...\<close>. After \<^verbatim>\<open>/base/d\<close> and then
  that child have been expanded, selecting \<^verbatim>\<open>/base/d\<close> again takes the child for the
  marker, deletes it with what is below it and lists the directory anew: the expanded
  node does not keep its children as they were.
\<close>

theorem expanded_node_is_rebuilt:
  "refresh_directory_tree sentinel_fs ''/base'' =
     Inr (TNode [] [] [TNode ''d'' [''/base/d''] [TNode ''Loading...'' [] []]])
   \<and> on_dir_select sentinel_fs [[0]]
       (TNode [] [] [TNode ''d'' [''/base/d''] [TNode ''Loading...'' [] []]]) =
     Inr (Some ''/base/d'', sentinel_tree1)
   \<and> on_dir_select sentinel_fs [[0, 0]] sentinel_tree1 =
     Inr (Some ''/base/d/Loading...'', sentinel_tree2)
   \<and> on_dir_select sentinel_fs [[0]] sentinel_tree2 = Inr (Some ''/base/d'', sentinel_tree1)
   \<and> sentinel_tree1 \<noteq> sentinel_tree2"
  using sentinel_refresh sentinel_step1 sentinel_step2 sentinel_step3
  by (simp add: sentinel_tree1_def sentinel_tree2_def)

text \<open>
  Away from that input a selected item whose children are not a single item named
  \<open>Loading...\<close> is left as it is.
\<close>

lemma get_node_child:
  "get_node tree item = Some n \<Longrightarrow> i < length (children n) \<Longrightarrow>
   get_node tree (item @ [i]) = Some (children n ! i)"
proof (induction item arbitrary: tree)
  case Nil
  then show ?case by simp
next
  case (Cons j p)
  then show ?case by (simp split: if_splits)
qed

lemma on_dir_select_unchanged:
  assumes n: "get_node tree item = Some n"
    and v: "item_values n = p # vs"
    and c: "\<not> (\<exists>c. children n = [c] \<and> item_text c = ''Loading...'')"
  shows "on_dir_select fs (item # others) tree = Inr (Some p, tree)"
proof (cases "children n")
  case Nil
  with n v show ?thesis
    by (simp add: on_dir_select_def tv_values_def tv_get_children_def)
next
  case (Cons a as)
  show ?thesis
  proof (cases as)
    case Nil
    with Cons have one: "children n = [a]" by simp
    with c have "item_text a \<noteq> ''Loading...''" by simp
    moreover have "get_node tree (item @ [0]) = Some a"
      using get_node_child [OF n, of 0] one by simp
    ultimately show ?thesis using n v one
      by (simp add: on_dir_select_def tv_values_def tv_get_children_def tv_text_def)
  next
    case (Cons b bs)
    with \<open>children n = a # as\<close> have "children n = a # b # bs" by simp
    with n v show ?thesis
      by (simp add: on_dir_select_def tv_values_def tv_get_children_def upt_rec)
  qed
qed

section \<open>Rename and launch: properties\<close>

lemma dropWhile_Nil_all: "dropWhile P s = [] \<longleftrightarrow> (\<forall>c \<in> set s. P c)"
  by (induction s) auto

lemma strip_Nil_iff: "strip s = [] \<longleftrightarrow> (\<forall>c \<in> set s. is_space c)"
proof
  assume "strip s = []"
  then have e: "dropWhile is_space (rev (dropWhile is_space s)) = []"
    by (simp add: strip_def)
  show "\<forall>c \<in> set s. is_space c"
  proof (cases "dropWhile is_space s")
    case Nil
    then show ?thesis by (simp only: dropWhile_Nil_all)
  next
    case (Cons a as)
    then have "\<not> is_space a" using hd_dropWhile [of is_space s] by simp
    moreover from e have "\<forall>c \<in> set (rev (dropWhile is_space s)). is_space c"
      by (simp only: dropWhile_Nil_all)
    with Cons have "is_space a" by simp
    ultimately show ?thesis by simp
  qed
next
  assume a: "\<forall>c \<in> set s. is_space c"
  then have d: "dropWhile is_space s = []" by (simp only: dropWhile_Nil_all)
  show "strip s = []" unfolding strip_def d by simp
qed

lemma space_not_m: "is_space c \<Longrightarrow> lower_char c \<noteq> CHR ''m''"
  by (auto simp add: is_space_def lower_char_def upper_letters_def lower_letters_def)

lemma missing_line_strip: "missing_line l \<Longrightarrow> strip l \<noteq> []"
proof -
  assume "missing_line l"
  then have "contains ''missing'' (lower l)" by (simp add: missing_line_def)
  then obtain p s where "lower l = p @ ''missing'' @ s" by (auto simp: contains_iff)
  then have "CHR ''m'' \<in> set (lower l)" by simp
  then obtain c where c: "c \<in> set l" "lower_char c = CHR ''m''" by (auto simp: lower_def)
  with space_not_m have "\<not> is_space c" by blast
  with c(1) show "strip l \<noteq> []" by (auto simp: strip_Nil_iff)
qed

lemma missing_files_nonempty: "m \<in> set (missing_files_of fs cfg) \<Longrightarrow> m \<noteq> []"
  by (auto simp add: missing_files_of_def kept_lines_def missing_line_strip split: sum.splits)


lemma rename_failure:
  assumes "get_selected_file st = Inr (Some f)" and "f \<noteq> []"
    and "new_name \<noteq> []" and "new_name \<noteq> basename f"
    and "os_rename fs f (join (dirname f) new_name) = Inl e"
  shows "rename_file os_rename fs cfg (Some new_name) st =
           (None, [AskString (basename f), OsRename f (join (dirname f) new_name),
                   ShowError ''Failed to rename file''], st, fs)"
  using assms by (simp add: rename_file_def Let_def)

lemma rename_success:
  assumes "get_selected_file st = Inr (Some f)" and "f \<noteq> []"
    and "new_name \<noteq> []" and "new_name \<noteq> basename f"
    and "os_rename fs f (join (dirname f) new_name) = Inr fs_after"
  shows "rename_file os_rename fs cfg (Some new_name) st =
           (None,
            [AskString (basename f), OsRename f (join (dirname f) new_name)] @
            events_of (refresh_files fs_after cfg st) @
            [if fst (refresh_files fs_after cfg st) = None
             then ShowInfo (''Renamed '' @ quoted (basename f) @ '' to '' @ quoted new_name)
             else ShowError ''Failed to rename file''],
            panel_of (refresh_files fs_after cfg st), fs_after)"
proof -
  obtain err evs st1 where r: "refresh_files fs_after cfg st = (err, evs, st1)"
    by (cases "refresh_files fs_after cfg st")
  show ?thesis
    using assms r
    by (cases err) (simp_all add: rename_file_def Let_def events_of_def panel_of_def)
qed

lemma rename_not_asked:
  assumes "get_selected_file st = Inr (Some f)" and "f \<noteq> []"
    and "answer = None \<or> answer = Some [] \<or> answer = Some (basename f)"
  shows "rename_file os_rename fs cfg answer st = (None, [AskString (basename f)], st, fs)"
  using assms by (auto simp add: rename_file_def Let_def)

lemma rename_no_exception:
  assumes "get_selected_file st = Inr (Some f)"
  shows "rename_error (rename_file os_rename fs cfg answer st) = None"
  using assms
  by (auto simp add: rename_file_def rename_error_def Let_def
      split: sum.splits option.splits prod.splits)

lemma launch_opens_dialog:
  assumes "get_selected_file st = Inr (Some f)" and "f \<noteq> []"
  shows "launch_upload_assistant env cfg st = (None, [OpenArgsDialog f])"
  using assms by (simp add: launch_upload_assistant_def ua_dialog_result_def)

lemma nothing_selected:
  assumes "get_selected_file st = Inr None \<or> get_selected_file st = Inr (Some [])"
  shows "rename_file os_rename fs cfg answer st =
           (None, [ShowWarning ''Please select a file to rename''], st, fs)"
    and "launch_upload_assistant env cfg st =
           (None, [ShowWarning ''Please select a file for upload assistant''])"
  using assms by (auto simp add: rename_file_def launch_upload_assistant_def)

lemma missing_entries_selectable:
  "path_exists fs d \<Longrightarrow> i < length (missing_files_of fs cfg) \<Longrightarrow>
   get_selected_file ((panel_of (update_files fs cfg d True prior))\<lparr>curselection := [int i]\<rparr>)
     = Inr (Some (missing_files_of fs cfg ! i))
   \<and> missing_files_of fs cfg ! i \<noteq> []"
  by (simp add: update_files_missing panel_of_def get_selected_file_def py_index_def
      missing_files_nonempty [OF nth_mem])

text \<open>
  C3, as the code has it. Rename and launch do not look at the kind of the selected
  entry; the code keeps no kind. For a selected entry that is not empty, and the entries
  of the filtered listing never are, rename asks for the new name and, for a name that is
  not empty and differs from the old one, hands the entry, taken as a path, to
  \<^verbatim>\<open>os.rename\<close>. When that call raises, the message is \<open>Failed to rename file\<close> and
  panel and filesystem stay as they were; when it returns, the listing is refreshed and
  the rename is reported. No exception leaves the function. Launch opens the arguments
  dialog for the entry and starts no process, since the result of the dialog is read
  before the operator can fill it. The only local refusal, for any entry, is the warning
  shown when nothing is selected.
\<close>

theorem missing_entry_treated_as_path:
  "(get_selected_file st = Inr (Some f) \<and> f \<noteq> [] \<longrightarrow>
      (new_name \<noteq> [] \<and> new_name \<noteq> basename f
         \<and> os_rename fs f (join (dirname f) new_name) = Inl e \<longrightarrow>
         rename_file os_rename fs cfg (Some new_name) st =
           (None, [AskString (basename f), OsRename f (join (dirname f) new_name),
                   ShowError ''Failed to rename file''], st, fs))
    \<and> (new_name \<noteq> [] \<and> new_name \<noteq> basename f
         \<and> os_rename fs f (join (dirname f) new_name) = Inr fs_after \<longrightarrow>
         rename_file os_rename fs cfg (Some new_name) st =
           (None,
            [AskString (basename f), OsRename f (join (dirname f) new_name)] @
            events_of (refresh_files fs_after cfg st) @
            [if fst (refresh_files fs_after cfg st) = None
             then ShowInfo (''Renamed '' @ quoted (basename f) @ '' to '' @ quoted new_name)
             else ShowError ''Failed to rename file''],
            panel_of (refresh_files fs_after cfg st), fs_after))
    \<and> (answer = None \<or> answer = Some [] \<or> answer = Some (basename f) \<longrightarrow>
         rename_file os_rename fs cfg answer st = (None, [AskString (basename f)], st, fs))
    \<and> rename_error (rename_file os_rename fs cfg answer st) = None
    \<and> launch_upload_assistant env cfg st = (None, [OpenArgsDialog f]))
   \<and> (get_selected_file st = Inr None \<or> get_selected_file st = Inr (Some []) \<longrightarrow>
        rename_file os_rename fs cfg answer st =
          (None, [ShowWarning ''Please select a file to rename''], st, fs)
      \<and> launch_upload_assistant env cfg st =
          (None, [ShowWarning ''Please select a file for upload assistant'']))
   \<and> (path_exists fs d \<longrightarrow>
        (\<forall>i < length (missing_files_of fs cfg).
           get_selected_file
             ((panel_of (update_files fs cfg d True prior))\<lparr>curselection := [int i]\<rparr>)
             = Inr (Some (missing_files_of fs cfg ! i))
           \<and> missing_files_of fs cfg ! i \<noteq> []))"
proof (intro conjI impI allI)
  assume h: "get_selected_file st = Inr (Some f) \<and> f \<noteq> []"
  {
    assume "new_name \<noteq> [] \<and> new_name \<noteq> basename f
         \<and> os_rename fs f (join (dirname f) new_name) = Inl e"
    with h show "rename_file os_rename fs cfg (Some new_name) st =
           (None, [AskString (basename f), OsRename f (join (dirname f) new_name),
                   ShowError ''Failed to rename file''], st, fs)"
      by (simp add: rename_failure)
  }
  {
    assume "new_name \<noteq> [] \<and> new_name \<noteq> basename f
         \<and> os_rename fs f (join (dirname f) new_name) = Inr fs_after"
    with h show "rename_file os_rename fs cfg (Some new_name) st =
           (None,
            [AskString (basename f), OsRename f (join (dirname f) new_name)] @
            events_of (refresh_files fs_after cfg st) @
            [if fst (refresh_files fs_after cfg st) = None
             then ShowInfo (''Renamed '' @ quoted (basename f) @ '' to '' @ quoted new_name)
             else ShowError ''Failed to rename file''],
            panel_of (refresh_files fs_after cfg st), fs_after)"
      by (simp add: rename_success)
  }
  {
    assume "answer = None \<or> answer = Some [] \<or> answer = Some (basename f)"
    with h show "rename_file os_rename fs cfg answer st =
        (None, [AskString (basename f)], st, fs)"
      by (simp add: rename_not_asked)
  }
  from h show "rename_error (rename_file os_rename fs cfg answer st) = None"
    by (simp add: rename_no_exception)
  from h show "launch_upload_assistant env cfg st = (None, [OpenArgsDialog f])"
    by (simp add: launch_opens_dialog)
next
  assume n: "get_selected_file st = Inr None \<or> get_selected_file st = Inr (Some [])"
  then show "rename_file os_rename fs cfg answer st =
          (None, [ShowWarning ''Please select a file to rename''], st, fs)"
    by (rule nothing_selected(1))
  from n show "launch_upload_assistant env cfg st =
          (None, [ShowWarning ''Please select a file for upload assistant''])"
    by (rule nothing_selected(2))
next
  fix i
  assume "path_exists fs d" and "i < length (missing_files_of fs cfg)"
  then show "get_selected_file
             ((panel_of (update_files fs cfg d True prior))\<lparr>curselection := [int i]\<rparr>)
             = Inr (Some (missing_files_of fs cfg ! i))"
    and "missing_files_of fs cfg ! i \<noteq> []"
    using missing_entries_selectable [of fs d i cfg prior] by simp_all
qed

lemma example_missing_panel_eq:
  "example_missing_panel =
     \<lparr>listbox = [''[MISSING] Missing Torrent: foo.mkv'', ''[MISSING] torrentmissingbar''],
      curselection = [0],
      current_files = [''Missing Torrent: foo.mkv'', ''torrentmissingbar''],
      current_directory = Some ''/data/torrents''\<rparr>"
  by (simp add: example_missing_panel_def update_files_missing [OF example_paths_exist(1)]
      panel_of_def example_missing_files init_panel_def)

lemma example_missing_selected:
  "get_selected_file example_missing_panel = Inr (Some ''Missing Torrent: foo.mkv'')"
  by (simp add: example_missing_panel_eq get_selected_file_def py_index_def)

lemma example_names:
  "basename ''Missing Torrent: foo.mkv'' = ''Missing Torrent: foo.mkv''"
  "dirname ''Missing Torrent: foo.mkv'' = []"
  "join [] ''x'' = ''x''"
  by (simp_all add: basename_def dirname_def join_def)


lemma example_move_fails:
  "move_entry example_fs ''Missing Torrent: foo.mkv'' ''x'' = Inl FileNotFoundError"
  by (simp add: move_entry_def example_fs_def)

lemma example_move_done:
  "move_entry cwd_fs ''Missing Torrent: foo.mkv'' ''x'' =
     Inr (cwd_fs(''Missing Torrent: foo.mkv'' := None, ''x'' \<mapsto> File (Some ''data'')))"
  by (simp add: move_entry_def cwd_fs_def)

lemma example_refresh_after_move:
  "refresh_files (cwd_fs(''Missing Torrent: foo.mkv'' := None, ''x'' \<mapsto> File (Some ''data'')))
     example_cfg example_missing_panel =
     (None, [],
      \<lparr>listbox = [''B'', ''C'', ''a'', ''f.txt''], curselection = [],
       current_files = [''/data/torrents/B'', ''/data/torrents/C'', ''/data/torrents/a'',
                        ''/data/torrents/f.txt''],
       current_directory = Some ''/data/torrents''\<rparr>)"
  by (simp add: refresh_files_def example_missing_panel_eq update_files_def cwd_fs_def
      example_fs_def path_exists_def listdir_def isfile_def isdir_def join_def endswith_def
      add_file_def)

lemma example_nothing_selected: "get_selected_file init_panel = Inr None"
  by (simp add: get_selected_file_def init_panel_def)

theorem missing_entry_rename_counterexample:
  "get_selected_file example_missing_panel = Inr (Some ''Missing Torrent: foo.mkv'')
   \<and> rename_file move_entry example_fs example_cfg (Some ''x'') example_missing_panel =
       (None,
        [AskString ''Missing Torrent: foo.mkv'',
         OsRename ''Missing Torrent: foo.mkv'' ''x'',
         ShowError ''Failed to rename file''],
        example_missing_panel, example_fs)
   \<and> launch_upload_assistant posix_env example_cfg example_missing_panel =
       (None, [OpenArgsDialog ''Missing Torrent: foo.mkv''])"
  by (simp add: example_missing_selected rename_file_def example_names example_move_fails
      launch_upload_assistant_def ua_dialog_result_def Let_def)

theorem missing_entry_treated_as_path_witness:
  "get_selected_file example_missing_panel = Inr (Some ''Missing Torrent: foo.mkv'')
   \<and> ''Missing Torrent: foo.mkv'' \<noteq> []
   \<and> ''x'' \<noteq> [] \<and> ''x'' \<noteq> basename ''Missing Torrent: foo.mkv''
   \<and> move_entry example_fs ''Missing Torrent: foo.mkv''
        (join (dirname ''Missing Torrent: foo.mkv'') ''x'') = Inl FileNotFoundError
   \<and> rename_file move_entry example_fs example_cfg (Some ''x'') example_missing_panel =
       (None,
        [AskString ''Missing Torrent: foo.mkv'',
         OsRename ''Missing Torrent: foo.mkv'' ''x'',
         ShowError ''Failed to rename file''],
        example_missing_panel, example_fs)
   \<and> move_entry cwd_fs ''Missing Torrent: foo.mkv''
        (join (dirname ''Missing Torrent: foo.mkv'') ''x'') =
       Inr (cwd_fs(''Missing Torrent: foo.mkv'' := None, ''x'' \<mapsto> File (Some ''data'')))
   \<and> rename_events (rename_file move_entry cwd_fs example_cfg (Some ''x'')
                       example_missing_panel) =
       [AskString ''Missing Torrent: foo.mkv'',
        OsRename ''Missing Torrent: foo.mkv'' ''x'',
        ShowInfo (''Renamed '' @ quoted ''Missing Torrent: foo.mkv'' @ '' to '' @ quoted ''x'')]
   \<and> rename_file move_entry example_fs example_cfg None example_missing_panel =
       (None, [AskString ''Missing Torrent: foo.mkv''], example_missing_panel, example_fs)
   \<and> rename_error (rename_file move_entry cwd_fs example_cfg (Some ''x'')
                      example_missing_panel) = None
   \<and> launch_upload_assistant posix_env example_cfg example_missing_panel =
       (None, [OpenArgsDialog ''Missing Torrent: foo.mkv''])
   \<and> get_selected_file init_panel = Inr None
   \<and> rename_file move_entry example_fs example_cfg None init_panel =
       (None, [ShowWarning ''Please select a file to rename''], init_panel, example_fs)
   \<and> launch_upload_assistant posix_env example_cfg init_panel =
       (None, [ShowWarning ''Please select a file for upload assistant''])
   \<and> path_exists example_fs ''/data/torrents''
   \<and> (1::nat) < length (missing_files_of example_fs example_cfg)
   \<and> get_selected_file
         ((panel_of (update_files example_fs example_cfg ''/data/torrents'' True init_panel))
            \<lparr>curselection := [int 1]\<rparr>) = Inr (Some ''torrentmissingbar'')"
proof -
  have h: "get_selected_file example_missing_panel = Inr (Some ''Missing Torrent: foo.mkv'')
           \<and> ''Missing Torrent: foo.mkv'' \<noteq> []"
    by (simp add: example_missing_selected)
  have nm: "''x'' \<noteq> [] \<and> ''x'' \<noteq> basename ''Missing Torrent: foo.mkv''"
    by (simp add: example_names)
  have mf: "move_entry example_fs ''Missing Torrent: foo.mkv''
        (join (dirname ''Missing Torrent: foo.mkv'') ''x'') = Inl FileNotFoundError"
    by (simp add: example_names example_move_fails)
  have md: "move_entry cwd_fs ''Missing Torrent: foo.mkv''
        (join (dirname ''Missing Torrent: foo.mkv'') ''x'') =
       Inr (cwd_fs(''Missing Torrent: foo.mkv'' := None, ''x'' \<mapsto> File (Some ''data'')))"
    by (simp add: example_names example_move_done)
  have len: "(1::nat) < length (missing_files_of example_fs example_cfg)"
    by (simp add: example_missing_files)
  note t1 = missing_entry_treated_as_path [where st = example_missing_panel
        and f = "''Missing Torrent: foo.mkv''" and new_name = "''x''"
        and os_rename = move_entry and fs = example_fs and cfg = example_cfg
        and e = FileNotFoundError and answer = None and env = posix_env
        and d = "''/data/torrents''" and prior = init_panel,
      THEN conjunct1, rule_format, OF h]
  note t2 = missing_entry_treated_as_path [where st = example_missing_panel
        and f = "''Missing Torrent: foo.mkv''" and new_name = "''x''"
        and os_rename = move_entry and fs = cwd_fs and cfg = example_cfg
        and fs_after = "cwd_fs(''Missing Torrent: foo.mkv'' := None, ''x'' \<mapsto> File (Some ''data''))"
        and answer = "Some ''x''" and env = posix_env,
      THEN conjunct1, rule_format, OF h]
  note t3 = missing_entry_treated_as_path [where st = init_panel
        and os_rename = move_entry and fs = example_fs and cfg = example_cfg
        and answer = None and env = posix_env
        and d = "''/data/torrents''" and prior = init_panel,
      THEN conjunct2]
  have fail: "rename_file move_entry example_fs example_cfg (Some ''x'') example_missing_panel =
       (None,
        [AskString ''Missing Torrent: foo.mkv'',
         OsRename ''Missing Torrent: foo.mkv'' ''x'',
         ShowError ''Failed to rename file''],
        example_missing_panel, example_fs)"
    using t1 [THEN conjunct1, rule_format, OF conjI [OF conjunct1 [OF nm] conjI [OF conjunct2 [OF nm] mf]]]
    by (simp add: example_names)
  have renamed: "rename_events (rename_file move_entry cwd_fs example_cfg (Some ''x'')
                       example_missing_panel) =
       [AskString ''Missing Torrent: foo.mkv'',
        OsRename ''Missing Torrent: foo.mkv'' ''x'',
        ShowInfo (''Renamed '' @ quoted ''Missing Torrent: foo.mkv'' @ '' to '' @ quoted ''x'')]"
    using t2 [THEN conjunct2, THEN conjunct1, rule_format, OF conjI [OF conjunct1 [OF nm] conjI [OF conjunct2 [OF nm] md]]]
    by (simp add: example_names example_refresh_after_move rename_events_def events_of_def)
  have cancel: "rename_file move_entry example_fs example_cfg None example_missing_panel =
       (None, [AskString ''Missing Torrent: foo.mkv''], example_missing_panel, example_fs)"
    using t1 [THEN conjunct2, THEN conjunct2, THEN conjunct1] by (simp add: example_names)
  have noexc: "rename_error (rename_file move_entry cwd_fs example_cfg (Some ''x'')
                      example_missing_panel) = None"
    using t2 [THEN conjunct2, THEN conjunct2, THEN conjunct2, THEN conjunct1] .
  have launch: "launch_upload_assistant posix_env example_cfg example_missing_panel =
       (None, [OpenArgsDialog ''Missing Torrent: foo.mkv''])"
    using t1 [THEN conjunct2, THEN conjunct2, THEN conjunct2, THEN conjunct2] .
  have none: "rename_file move_entry example_fs example_cfg None init_panel =
       (None, [ShowWarning ''Please select a file to rename''], init_panel, example_fs)
     \<and> launch_upload_assistant posix_env example_cfg init_panel =
       (None, [ShowWarning ''Please select a file for upload assistant''])"
    using t3 [THEN conjunct1, rule_format, OF disjI1 [OF example_nothing_selected]] .
  have sel: "get_selected_file
         ((panel_of (update_files example_fs example_cfg ''/data/torrents'' True init_panel))
            \<lparr>curselection := [int 1]\<rparr>) = Inr (Some ''torrentmissingbar'')"
    using t3 [THEN conjunct2, rule_format, OF example_paths_exist(1) len]
    by (simp add: example_missing_files)
  from h nm mf md fail renamed cancel noexc launch none sel len example_nothing_selected
    example_paths_exist(1)
  show ?thesis by (intro conjI) simp_all
qed

end
